theory Spec2Isabelle
  imports Main
begin

section \<open>Data model of \<^verbatim>\<open>src/client.ts\<close>\<close>

text \<open>
  Values of the host language. \<^verbatim>\<open>args?: Record<string, unknown>\<close> holds arbitrary
  values: scalars, arrays, nested records and references to other chainable objects.
  A reference carries what identifies the referenced object: the address of its tree
  array, its host and its session token. Numbers are the integers (sizes, ports).
\<close>

type_synonym addr = nat

datatype jsval =
    JUndefined
  | JNull
  | JBool bool
  | JNum int
  | JStr string
  | JArr "jsval list"
  | JObj "(string \<times> jsval) list"
  | JRef addr string string

text \<open>\<^verbatim>\<open>export type QueryTree = { operation: string; args?: Record<string, unknown> }\<close>\<close>

record QueryTree =
  operation :: string
  args :: "(string \<times> jsval) list option"

text \<open>
  Arrays of nodes are objects of the host language, held by reference. The store maps
  the address of every array allocated so far to its contents; a new array (an array
  literal, also one with a spread) gets the next address.
\<close>

type_synonym heap = "QueryTree list list"

definition alloc :: "QueryTree list \<Rightarrow> heap \<Rightarrow> addr \<times> heap" where
  "alloc xs h = (length h, h @ [xs])"

text \<open>\<^verbatim>\<open>interface ClientConfig { queryTree?; host?; sessionToken? }\<close>\<close>

record ClientConfig =
  cfg_queryTree :: "addr option"
  cfg_host :: "string option"
  cfg_sessionToken :: "string option"

text \<open>The transport object: \<^verbatim>\<open>new GraphQLClient(url, { headers })\<close>.\<close>

record GraphQLClient =
  url :: string
  headers :: "(string \<times> string) list"

text \<open>
  \<^verbatim>\<open>class BaseClient\<close>. The field \<^verbatim>\<open>_queryTree\<close> is \<open>b_queryTree\<close>, the address of the
  array the object refers to.
\<close>

record BaseClient =
  b_queryTree :: addr
  client :: GraphQLClient
  clientHost :: string
  sessionToken :: string

text \<open>The process environment read by \<^verbatim>\<open>Deno.env\<close>.\<close>

type_synonym env = "string \<rightharpoonup> string"

section \<open>Host-language primitives\<close>

text \<open>Truthiness, as tested by \<^verbatim>\<open>if (x)\<close> and \<^verbatim>\<open>x || y\<close>.\<close>

fun truthy :: "jsval \<Rightarrow> bool" where
  "truthy JUndefined = False"
| "truthy JNull = False"
| "truthy (JBool b) = b"
| "truthy (JNum n) = (n \<noteq> 0)"
| "truthy (JStr s) = (s \<noteq> [])"
| "truthy (JArr xs) = True"
| "truthy (JObj kvs) = True"
| "truthy (JRef r hst tok) = True"

text \<open>\<^verbatim>\<open>x || d\<close> on an optional string: the default for undefined and for the empty string.\<close>

definition str_or :: "string option \<Rightarrow> string \<Rightarrow> string" where
  "str_or x d = (case x of None \<Rightarrow> d | Some s \<Rightarrow> if s = [] then d else s)"

text \<open>String conversion of an optional string in \<^verbatim>\<open>x + ":"\<close>.\<close>

definition to_string :: "string option \<Rightarrow> string" where
  "to_string x = (case x of None \<Rightarrow> ''undefined'' | Some s \<Rightarrow> s)"

text \<open>\<^verbatim>\<open>btoa\<close>: Base64 of a string of 8-bit characters, with padding.\<close>

definition b64_alphabet :: string where
  "b64_alphabet = ''ABCDEFGHIJKLMNOPQRSTUVWXYZabcdefghijklmnopqrstuvwxyz0123456789+/''"

definition b64_char :: "nat \<Rightarrow> char" where
  "b64_char n = b64_alphabet ! (n mod 64)"

fun btoa :: "string \<Rightarrow> string" where
  "btoa [] = []"
| "btoa [a] =
     (let n = (of_char a :: nat) * 65536
      in [b64_char (n div 262144), b64_char (n div 4096), CHR ''='', CHR ''=''])"
| "btoa [a, b] =
     (let n = (of_char a :: nat) * 65536 + of_char b * 256
      in [b64_char (n div 262144), b64_char (n div 4096), b64_char (n div 64), CHR ''=''])"
| "btoa (a # b # c # r) =
     (let n = (of_char a :: nat) * 65536 + of_char b * 256 + of_char c
      in [b64_char (n div 262144), b64_char (n div 4096), b64_char (n div 64), b64_char n]
         @ btoa r)"

text \<open>\<^verbatim>\<open>s.startsWith(p)\<close> and \<^verbatim>\<open>s.split(":")[0]\<close>.\<close>

definition startsWith :: "string \<Rightarrow> string \<Rightarrow> bool" where
  "startsWith s p = (take (length p) s = p)"

definition split_colon_0 :: "string \<Rightarrow> string" where
  "split_colon_0 s = takeWhile (\<lambda>c. c \<noteq> CHR '':'') s"

text \<open>
  The regular expression \<^verbatim>\<open>/(?:[0-9]{1,3}\.){3}[0-9]{1,3}/\<close>. Each piece maps a string to
  the list of remainders it can leave after matching at the start, longest first.
  The expression has no anchors: \<^verbatim>\<open>match\<close> succeeds when it matches at some position.
\<close>

definition is_digit :: "char \<Rightarrow> bool" where
  "is_digit c = (c \<in> set ''0123456789'')"

definition digits_1_3 :: "string \<Rightarrow> string list" where
  "digits_1_3 s =
     map (\<lambda>k. drop k s)
       (filter (\<lambda>k. k \<le> length s \<and> list_all is_digit (take k s)) [3, 2, 1])"

definition literal_dot :: "string \<Rightarrow> string list" where
  "literal_dot s = (case s of [] \<Rightarrow> [] | c # r \<Rightarrow> if c = CHR ''.'' then [r] else [])"

definition digits_dot :: "string \<Rightarrow> string list" where
  "digits_dot s = concat (map literal_dot (digits_1_3 s))"

definition ipv4_here :: "string \<Rightarrow> bool" where
  "ipv4_here s =
     (concat (map digits_1_3
        (concat (map digits_dot (concat (map digits_dot (digits_dot s)))))) \<noteq> [])"

fun match_ipv4 :: "string \<Rightarrow> bool" where
  "match_ipv4 [] = ipv4_here []"
| "match_ipv4 (c # r) = (ipv4_here (c # r) \<or> match_ipv4 r)"

section \<open>The constructor of \<^verbatim>\<open>BaseClient\<close>\<close>

definition scheme_of :: "string \<Rightarrow> string" where
  "scheme_of hst =
     (if startsWith hst ''localhost'' \<or> match_ipv4 (split_colon_0 hst)
      then ''http'' else ''https'')"

definition endpoint_url :: "env \<Rightarrow> string \<Rightarrow> string" where
  "endpoint_url e hst =
     (case e ''FLUENTCI_SESSION_ID'' of
        Some v \<Rightarrow> scheme_of hst @ ''://'' @ hst @ ''/query?id='' @ v
      | None \<Rightarrow> scheme_of hst @ ''://'' @ hst @ ''/query'')"

definition request_headers :: "env \<Rightarrow> string option \<Rightarrow> (string \<times> string) list" where
  "request_headers e tok =
     [(''Authorization'', ''Basic '' @ btoa (to_string tok @ '':'')),
      (''X-FluentCI-Session-ID'', str_or (e ''FLUENTCI_SESSION_ID'') [])]"

text \<open>
  \<^verbatim>\<open>constructor({ queryTree, host, sessionToken }: ClientConfig = {})\<close>. An absent
  \<^verbatim>\<open>queryTree\<close> allocates the empty array; a given one is kept by reference. The
  Authorization header is computed from the parameter, the field from \<^verbatim>\<open>sessionToken || ""\<close>.
\<close>

definition BaseClient_constructor ::
  "env \<Rightarrow> ClientConfig option \<Rightarrow> heap \<Rightarrow> BaseClient \<times> heap" where
  "BaseClient_constructor e parent h =
     (let cfg = (case parent of
                   None \<Rightarrow> \<lparr>cfg_queryTree = None, cfg_host = None, cfg_sessionToken = None\<rparr>
                 | Some c \<Rightarrow> c);
          (r, h') = (case cfg_queryTree cfg of Some a \<Rightarrow> (a, h) | None \<Rightarrow> alloc [] h);
          hst = str_or (cfg_host cfg) ''127.0.0.1:8080''
      in (\<lparr>b_queryTree = r,
           client = \<lparr>url = endpoint_url e hst,
                      headers = request_headers e (cfg_sessionToken cfg)\<rparr>,
           clientHost = hst,
           sessionToken = str_or (cfg_sessionToken cfg) []\<rparr>, h'))"

text \<open>\<^verbatim>\<open>get queryTree() { return this._queryTree; }\<close>\<close>

definition queryTree :: "'a BaseClient_scheme \<Rightarrow> addr" where
  "queryTree self = b_queryTree self"

section \<open>Object literals\<close>

text \<open>
  A record literal keeps its keys in insertion order; writing a key that is already
  there replaces its value in place. \<^verbatim>\<open>{ ...opts }\<close> writes the keys of \<open>opts\<close> in
  their order, and nothing when \<open>opts\<close> is undefined.
\<close>

fun set_prop :: "string \<Rightarrow> jsval \<Rightarrow> (string \<times> jsval) list \<Rightarrow> (string \<times> jsval) list" where
  "set_prop k v [] = [(k, v)]"
| "set_prop k v (p # ps) = (if fst p = k then (k, v) # ps else p # set_prop k v ps)"

definition spread ::
  "(string \<times> jsval) list \<Rightarrow> (string \<times> jsval) list option \<Rightarrow> (string \<times> jsval) list" where
  "spread obj opts =
     (case opts of None \<Rightarrow> obj | Some kvs \<Rightarrow> foldl (\<lambda>acc kv. set_prop (fst kv) (snd kv) acc) obj kvs)"

section \<open>Resolution\<close>

text \<open>
  \<^verbatim>\<open>computeQuery(queryTree, client)\<close> is imported from \<^verbatim>\<open>./utils.ts\<close>. It is a parameter
  of every terminal method: given the nodes of the request and the transport object it
  acts on the remote world \<open>'w\<close> and yields the response or a rejection.
\<close>

datatype error = TypeError | Rejected string

type_synonym 'w computeQuery =
  "QueryTree list \<Rightarrow> GraphQLClient \<Rightarrow> 'w \<Rightarrow> (error + jsval) \<times> 'w"

text \<open>
  Reading a property of a response record: \<^verbatim>\<open>r.name\<close>. It throws on \<^verbatim>\<open>undefined\<close> and
  \<^verbatim>\<open>null\<close>, and is \<^verbatim>\<open>undefined\<close> where the record has no such key.
\<close>

fun get_prop :: "jsval \<Rightarrow> string \<Rightarrow> error + jsval" where
  "get_prop JUndefined k = Inl TypeError"
| "get_prop JNull k = Inl TypeError"
| "get_prop (JObj kvs) k = Inr (case map_of kvs k of None \<Rightarrow> JUndefined | Some v \<Rightarrow> v)"
| "get_prop v k = Inr JUndefined"

text \<open>\<^verbatim>\<open>response.map(f)\<close> where \<open>f\<close> constructs an object; the first throw ends the loop.\<close>

fun map_new ::
  "(jsval \<Rightarrow> heap \<Rightarrow> (error + 'a) \<times> heap) \<Rightarrow> jsval list \<Rightarrow> heap \<Rightarrow> (error + 'a list) \<times> heap" where
  "map_new f [] h = (Inr [], h)"
| "map_new f (r # rs) h =
     (case f r h of
        (Inl e, h1) \<Rightarrow> (Inl e, h1)
      | (Inr x, h1) \<Rightarrow>
          (case map_new f rs h1 of
             (Inl e, h2) \<Rightarrow> (Inl e, h2)
           | (Inr xs, h2) \<Rightarrow> (Inr (x # xs), h2)))"

section \<open>The classes\<close>

text \<open>
  Every class extends \<^verbatim>\<open>BaseClient\<close> by its cached fields \<^verbatim>\<open>_id\<close>, \<^verbatim>\<open>_export\<close>, ...,
  written here with the initial of the class in front, since several classes use the
  same field names. A field never assigned is \<^verbatim>\<open>undefined\<close>.
\<close>

record EnvVariable = BaseClient +
  ev_name :: jsval
  ev_value :: jsval

record Port = BaseClient +
  p_description :: jsval
  p_port :: jsval
  p_protocol :: jsval

record File = BaseClient +
  f_id :: jsval
  f_contents :: jsval
  f_export :: jsval
  f_size :: jsval
  f_sync :: jsval

record Directory = BaseClient +
  d_id :: jsval
  d_export :: jsval
  d_sync :: jsval

record Container = BaseClient +
  c_id :: jsval
  c_endpoint :: jsval
  c_envVariable :: jsval
  c_export :: jsval
  c_hostname :: jsval
  c_imageRef :: jsval
  c_label :: jsval
  c_platform :: jsval
  c_publish :: jsval
  c_shellEndpoint :: jsval
  c_stderr :: jsval
  c_stdout :: jsval
  c_sync :: jsval
  c_user :: jsval
  c_workdir :: jsval

definition EnvVariable_constructor ::
  "env \<Rightarrow> ClientConfig option \<Rightarrow> jsval \<Rightarrow> jsval \<Rightarrow> heap \<Rightarrow> EnvVariable \<times> heap" where
  "EnvVariable_constructor e parent a_name a_value h =
     (let (b, h') = BaseClient_constructor e parent h
      in (\<lparr>b_queryTree = b_queryTree b, client = client b, clientHost = clientHost b,
           sessionToken = sessionToken b, ev_name = a_name, ev_value = a_value\<rparr>, h'))"

definition Port_constructor ::
  "env \<Rightarrow> ClientConfig option \<Rightarrow> jsval \<Rightarrow> jsval \<Rightarrow> jsval \<Rightarrow> heap \<Rightarrow> Port \<times> heap" where
  "Port_constructor e parent a_description a_port a_protocol h =
     (let (b, h') = BaseClient_constructor e parent h
      in (\<lparr>b_queryTree = b_queryTree b, client = client b, clientHost = clientHost b,
           sessionToken = sessionToken b, p_description = a_description, p_port = a_port,
           p_protocol = a_protocol\<rparr>, h'))"

definition File_constructor ::
  "env \<Rightarrow> ClientConfig option \<Rightarrow> jsval \<Rightarrow> jsval \<Rightarrow> jsval \<Rightarrow> jsval \<Rightarrow> jsval \<Rightarrow> heap
     \<Rightarrow> File \<times> heap" where
  "File_constructor e parent a_id a_contents a_export a_size a_sync h =
     (let (b, h') = BaseClient_constructor e parent h
      in (\<lparr>b_queryTree = b_queryTree b, client = client b, clientHost = clientHost b,
           sessionToken = sessionToken b, f_id = a_id, f_contents = a_contents,
           f_export = a_export, f_size = a_size, f_sync = a_sync\<rparr>, h'))"

definition Directory_constructor ::
  "env \<Rightarrow> ClientConfig option \<Rightarrow> jsval \<Rightarrow> jsval \<Rightarrow> jsval \<Rightarrow> heap \<Rightarrow> Directory \<times> heap" where
  "Directory_constructor e parent a_id a_export a_sync h =
     (let (b, h') = BaseClient_constructor e parent h
      in (\<lparr>b_queryTree = b_queryTree b, client = client b, clientHost = clientHost b,
           sessionToken = sessionToken b, d_id = a_id, d_export = a_export, d_sync = a_sync\<rparr>, h'))"

definition Container_constructor ::
  "env \<Rightarrow> ClientConfig option \<Rightarrow> jsval \<Rightarrow> jsval \<Rightarrow> jsval \<Rightarrow> jsval \<Rightarrow> jsval \<Rightarrow> jsval
     \<Rightarrow> jsval \<Rightarrow> jsval \<Rightarrow> jsval \<Rightarrow> jsval \<Rightarrow> jsval \<Rightarrow> jsval \<Rightarrow> jsval \<Rightarrow> jsval \<Rightarrow> jsval
     \<Rightarrow> heap \<Rightarrow> Container \<times> heap" where
  "Container_constructor e parent a_id a_endpoint a_envVariable a_export a_hostname a_imageRef
       a_label a_platform a_publish a_shellEndpoint a_stderr a_stdout a_sync a_user a_workdir h =
     (let (b, h') = BaseClient_constructor e parent h
      in (\<lparr>b_queryTree = b_queryTree b, client = client b, clientHost = clientHost b,
           sessionToken = sessionToken b, c_id = a_id, c_endpoint = a_endpoint,
           c_envVariable = a_envVariable, c_export = a_export, c_hostname = a_hostname,
           c_imageRef = a_imageRef, c_label = a_label, c_platform = a_platform,
           c_publish = a_publish, c_shellEndpoint = a_shellEndpoint, c_stderr = a_stderr,
           c_stdout = a_stdout, c_sync = a_sync, c_user = a_user, c_workdir = a_workdir\<rparr>, h'))"

text \<open>
  \<^verbatim>\<open>new Container({ queryTree: [...], host, sessionToken })\<close>, the call every deferred
  method returning a container makes: the parent only, every cached field undefined.
\<close>

definition new_Container :: "env \<Rightarrow> ClientConfig \<Rightarrow> heap \<Rightarrow> Container \<times> heap" where
  "new_Container e cfg h =
     Container_constructor e (Some cfg) JUndefined JUndefined JUndefined JUndefined JUndefined
       JUndefined JUndefined JUndefined JUndefined JUndefined JUndefined JUndefined JUndefined
       JUndefined JUndefined h"

section \<open>Deferred methods of \<^verbatim>\<open>Container\<close>\<close>

text \<open>
  Each one builds the array \<^verbatim>\<open>[...this._queryTree, { operation, args }]\<close>, a new array
  holding the nodes of the receiver's array followed by one node, and hands it to the
  constructor with the receiver's \<^verbatim>\<open>clientHost\<close> and \<^verbatim>\<open>sessionToken\<close>.
\<close>

definition Container_directory :: "env \<Rightarrow> Container \<Rightarrow> string \<Rightarrow> heap \<Rightarrow> Directory \<times> heap" where
  "Container_directory e self path h =
     (let (r, h1) = alloc (h ! b_queryTree self @
                      [\<lparr>operation = ''directory'', args = Some [(''path'', JStr path)]\<rparr>]) h
      in Directory_constructor e
           (Some \<lparr>cfg_queryTree = Some r, cfg_host = Some (clientHost self),
                  cfg_sessionToken = Some (sessionToken self)\<rparr>)
           JUndefined JUndefined JUndefined h1)"

definition Container_from :: "env \<Rightarrow> Container \<Rightarrow> string \<Rightarrow> heap \<Rightarrow> Container \<times> heap" where
  "Container_from e self address h =
     (let (r, h1) = alloc (h ! b_queryTree self @
                      [\<lparr>operation = ''from'', args = Some [(''address'', JStr address)]\<rparr>]) h
      in new_Container e
           \<lparr>cfg_queryTree = Some r, cfg_host = Some (clientHost self),
            cfg_sessionToken = Some (sessionToken self)\<rparr> h1)"

definition Container_withExec ::
  "env \<Rightarrow> Container \<Rightarrow> string list \<Rightarrow> (string \<times> jsval) list option \<Rightarrow> heap
     \<Rightarrow> Container \<times> heap" where
  "Container_withExec e self xs opts h =
     (let (r, h1) = alloc (h ! b_queryTree self @
                      [\<lparr>operation = ''withExec'',
                        args = Some (spread [(''args'', JArr (map JStr xs))] opts)\<rparr>]) h
      in new_Container e
           \<lparr>cfg_queryTree = Some r, cfg_host = Some (clientHost self),
            cfg_sessionToken = Some (sessionToken self)\<rparr> h1)"

definition Container_withWorkdir :: "env \<Rightarrow> Container \<Rightarrow> string \<Rightarrow> heap \<Rightarrow> Container \<times> heap" where
  "Container_withWorkdir e self path h =
     (let (r, h1) = alloc (h ! b_queryTree self @
                      [\<lparr>operation = ''withWorkdir'', args = Some [(''path'', JStr path)]\<rparr>]) h
      in new_Container e
           \<lparr>cfg_queryTree = Some r, cfg_host = Some (clientHost self),
            cfg_sessionToken = Some (sessionToken self)\<rparr> h1)"

section \<open>Terminal methods\<close>

text \<open>
  A terminal method passes a fresh array to \<^verbatim>\<open>computeQuery\<close> and keeps no reference to
  it: the model passes the nodes themselves and leaves the store as it is. The
  accessors test their cached field first.
\<close>

definition Container_id :: "'w computeQuery \<Rightarrow> Container \<Rightarrow> heap \<Rightarrow> 'w \<Rightarrow> (error + jsval) \<times> 'w" where
  "Container_id computeQuery self h w =
     (if truthy (c_id self) then (Inr (c_id self), w)
      else computeQuery (h ! b_queryTree self @ [\<lparr>operation = ''id'', args = None\<rparr>])
             (client self) w)"

definition image_metadata :: jsval where
  "image_metadata =
     JObj [(''forcedCompression'', JObj [(''is_enum'', JBool True)]),
           (''mediaTypes'', JObj [(''is_enum'', JBool True)])]"

definition Container_export ::
  "'w computeQuery \<Rightarrow> Container \<Rightarrow> string \<Rightarrow> (string \<times> jsval) list option \<Rightarrow> heap \<Rightarrow> 'w
     \<Rightarrow> (error + jsval) \<times> 'w" where
  "Container_export computeQuery self path opts h w =
     (if truthy (c_export self) then (Inr (c_export self), w)
      else computeQuery
             (h ! b_queryTree self @
                [\<lparr>operation = ''export'',
                  args = Some (set_prop ''__metadata'' image_metadata
                                 (spread [(''path'', JStr path)] opts))\<rparr>])
             (client self) w)"

definition Container_publish ::
  "'w computeQuery \<Rightarrow> Container \<Rightarrow> string \<Rightarrow> (string \<times> jsval) list option \<Rightarrow> heap \<Rightarrow> 'w
     \<Rightarrow> (error + jsval) \<times> 'w" where
  "Container_publish computeQuery self address opts h w =
     (if truthy (c_publish self) then (Inr (c_publish self), w)
      else computeQuery
             (h ! b_queryTree self @
                [\<lparr>operation = ''publish'',
                  args = Some (set_prop ''__metadata'' image_metadata
                                 (spread [(''address'', JStr address)] opts))\<rparr>])
             (client self) w)"

definition EnvVariable_name ::
  "'w computeQuery \<Rightarrow> EnvVariable \<Rightarrow> heap \<Rightarrow> 'w \<Rightarrow> (error + jsval) \<times> 'w" where
  "EnvVariable_name computeQuery self h w =
     (if truthy (ev_name self) then (Inr (ev_name self), w)
      else computeQuery (h ! b_queryTree self @ [\<lparr>operation = ''name'', args = None\<rparr>])
             (client self) w)"

definition EnvVariable_value ::
  "'w computeQuery \<Rightarrow> EnvVariable \<Rightarrow> heap \<Rightarrow> 'w \<Rightarrow> (error + jsval) \<times> 'w" where
  "EnvVariable_value computeQuery self h w =
     (if truthy (ev_value self) then (Inr (ev_value self), w)
      else computeQuery (h ! b_queryTree self @ [\<lparr>operation = ''value'', args = None\<rparr>])
             (client self) w)"

definition File_size :: "'w computeQuery \<Rightarrow> File \<Rightarrow> heap \<Rightarrow> 'w \<Rightarrow> (error + jsval) \<times> 'w" where
  "File_size computeQuery self h w =
     (if truthy (f_size self) then (Inr (f_size self), w)
      else computeQuery (h ! b_queryTree self @ [\<lparr>operation = ''size'', args = None\<rparr>])
             (client self) w)"

section \<open>Terminal methods that lift records into objects\<close>

text \<open>
  \<^verbatim>\<open>response.map((r) => new EnvVariable({ queryTree: this.queryTree, host, sessionToken },
  r.name, r.value))\<close>: a response that is not an array has no \<^verbatim>\<open>map\<close>.
\<close>

definition lift_EnvVariable :: "env \<Rightarrow> Container \<Rightarrow> jsval \<Rightarrow> heap \<Rightarrow> (error + EnvVariable) \<times> heap" where
  "lift_EnvVariable e self r h =
     (case get_prop r ''name'' of
        Inl err \<Rightarrow> (Inl err, h)
      | Inr n \<Rightarrow>
          (case get_prop r ''value'' of
             Inl err \<Rightarrow> (Inl err, h)
           | Inr v \<Rightarrow>
               (let (x, h1) = EnvVariable_constructor e
                      (Some \<lparr>cfg_queryTree = Some (queryTree self),
                             cfg_host = Some (clientHost self),
                             cfg_sessionToken = Some (sessionToken self)\<rparr>) n v h
                in (Inr x, h1))))"

definition Container_envVariables ::
  "env \<Rightarrow> 'w computeQuery \<Rightarrow> Container \<Rightarrow> heap \<Rightarrow> 'w \<Rightarrow> (error + EnvVariable list) \<times> heap \<times> 'w" where
  "Container_envVariables e computeQuery self h w =
     (case computeQuery
             (h ! b_queryTree self @
                [\<lparr>operation = ''envVariables'', args = None\<rparr>,
                 \<lparr>operation = ''name value'', args = None\<rparr>])
             (client self) w of
        (Inl err, w1) \<Rightarrow> (Inl err, h, w1)
      | (Inr response, w1) \<Rightarrow>
          (case response of
             JArr rs \<Rightarrow> (let (res, h1) = map_new (lift_EnvVariable e self) rs h in (res, h1, w1))
           | _ \<Rightarrow> (Inl TypeError, h, w1)))"

definition lift_Port :: "env \<Rightarrow> Container \<Rightarrow> jsval \<Rightarrow> heap \<Rightarrow> (error + Port) \<times> heap" where
  "lift_Port e self r h =
     (case get_prop r ''description'' of
        Inl err \<Rightarrow> (Inl err, h)
      | Inr d \<Rightarrow>
          (case get_prop r ''port'' of
             Inl err \<Rightarrow> (Inl err, h)
           | Inr p \<Rightarrow>
               (case get_prop r ''protocol'' of
                  Inl err \<Rightarrow> (Inl err, h)
                | Inr pr \<Rightarrow>
                    (let (x, h1) = Port_constructor e
                           (Some \<lparr>cfg_queryTree = Some (queryTree self),
                                  cfg_host = Some (clientHost self),
                                  cfg_sessionToken = Some (sessionToken self)\<rparr>) d p pr h
                     in (Inr x, h1)))))"

definition Container_exposedPorts ::
  "env \<Rightarrow> 'w computeQuery \<Rightarrow> Container \<Rightarrow> heap \<Rightarrow> 'w \<Rightarrow> (error + Port list) \<times> heap \<times> 'w" where
  "Container_exposedPorts e computeQuery self h w =
     (case computeQuery
             (h ! b_queryTree self @
                [\<lparr>operation = ''exposedPorts'', args = None\<rparr>,
                 \<lparr>operation = ''description port protocol'', args = None\<rparr>])
             (client self) w of
        (Inl err, w1) \<Rightarrow> (Inl err, h, w1)
      | (Inr response, w1) \<Rightarrow>
          (case response of
             JArr rs \<Rightarrow> (let (res, h1) = map_new (lift_Port e self) rs h in (res, h1, w1))
           | _ \<Rightarrow> (Inl TypeError, h, w1)))"

text \<open>
  A transport to run the methods on: the world is the list of requests sent so far, and
  every request is answered with the same reply.
\<close>

definition recording ::
  "jsval \<Rightarrow> (QueryTree list \<times> GraphQLClient) list computeQuery" where
  "recording reply q c sent = (Inr reply, sent @ [(q, c)])"

section \<open>Terminal methods that do not test their cached field\<close>

text \<open>
  \<^verbatim>\<open>class Client\<close> has the cached fields \<^verbatim>\<open>_checkVersionCompatibility\<close> and \<^verbatim>\<open>_defaultPlatform\<close>,
  set by its constructor; its two accessors resolve without looking at them. So do the
  \<^verbatim>\<open>sync\<close> methods, which await the resolution and return the receiver.
\<close>

record Client = BaseClient +
  cl_checkVersionCompatibility :: jsval
  cl_defaultPlatform :: jsval

definition Client_constructor ::
  "env \<Rightarrow> ClientConfig option \<Rightarrow> jsval \<Rightarrow> jsval \<Rightarrow> heap \<Rightarrow> Client \<times> heap" where
  "Client_constructor e parent a_checkVersionCompatibility a_defaultPlatform h =
     (let (b, h') = BaseClient_constructor e parent h
      in (\<lparr>b_queryTree = b_queryTree b, client = client b, clientHost = clientHost b,
           sessionToken = sessionToken b,
           cl_checkVersionCompatibility = a_checkVersionCompatibility,
           cl_defaultPlatform = a_defaultPlatform\<rparr>, h'))"

definition Client_checkVersionCompatibility ::
  "'w computeQuery \<Rightarrow> Client \<Rightarrow> string \<Rightarrow> heap \<Rightarrow> 'w \<Rightarrow> (error + jsval) \<times> 'w" where
  "Client_checkVersionCompatibility computeQuery self version h w =
     computeQuery
       (h ! b_queryTree self @
          [\<lparr>operation = ''checkVersionCompatibility'',
            args = Some [(''version'', JStr version)]\<rparr>])
       (client self) w"

definition Client_defaultPlatform ::
  "'w computeQuery \<Rightarrow> Client \<Rightarrow> heap \<Rightarrow> 'w \<Rightarrow> (error + jsval) \<times> 'w" where
  "Client_defaultPlatform computeQuery self h w =
     computeQuery (h ! b_queryTree self @ [\<lparr>operation = ''defaultPlatform'', args = None\<rparr>])
       (client self) w"

definition Container_sync ::
  "'w computeQuery \<Rightarrow> Container \<Rightarrow> heap \<Rightarrow> 'w \<Rightarrow> (error + Container) \<times> 'w" where
  "Container_sync computeQuery self h w =
     (case computeQuery (h ! b_queryTree self @ [\<lparr>operation = ''sync'', args = None\<rparr>])
             (client self) w of
        (Inl err, w1) \<Rightarrow> (Inl err, w1)
      | (Inr response, w1) \<Rightarrow> (Inr self, w1))"

definition Directory_sync ::
  "'w computeQuery \<Rightarrow> Directory \<Rightarrow> heap \<Rightarrow> 'w \<Rightarrow> (error + Directory) \<times> 'w" where
  "Directory_sync computeQuery self h w =
     (case computeQuery (h ! b_queryTree self @ [\<lparr>operation = ''sync'', args = None\<rparr>])
             (client self) w of
        (Inl err, w1) \<Rightarrow> (Inl err, w1)
      | (Inr response, w1) \<Rightarrow> (Inr self, w1))"

definition File_sync ::
  "'w computeQuery \<Rightarrow> File \<Rightarrow> heap \<Rightarrow> 'w \<Rightarrow> (error + File) \<times> 'w" where
  "File_sync computeQuery self h w =
     (case computeQuery (h ! b_queryTree self @ [\<lparr>operation = ''sync'', args = None\<rparr>])
             (client self) w of
        (Inl err, w1) \<Rightarrow> (Inl err, w1)
      | (Inr response, w1) \<Rightarrow> (Inr self, w1))"

section \<open>Construction on strings with arbitrary code units\<close>

text \<open>
  A string of the host language is a sequence of 16-bit code units, and \<^verbatim>\<open>btoa\<close> throws
  \<^verbatim>\<open>InvalidCharacterError\<close> on a code unit above \<open>0xFF\<close>. The strings of type \<open>string\<close> used
  so far are the ones \<^verbatim>\<open>btoa\<close> accepts. Here the session token handed to the constructor
  is a list of code units, and the constructor either throws or returns the object; the
  array allocated for an absent \<^verbatim>\<open>queryTree\<close> stays in the store when it throws.
\<close>

datatype dom_exception = InvalidCharacterError

definition latin1 :: "nat list \<Rightarrow> bool" where
  "latin1 us = list_all (\<lambda>u. u < 256) us"

definition btoa_units :: "nat list \<Rightarrow> dom_exception + string" where
  "btoa_units us = (if latin1 us then Inr (btoa (map char_of us)) else Inl InvalidCharacterError)"

definition to_units :: "nat list option \<Rightarrow> nat list" where
  "to_units x = (case x of None \<Rightarrow> map of_char ''undefined'' | Some us \<Rightarrow> us)"

record UnitsConfig =
  u_queryTree :: "addr option"
  u_host :: "string option"
  u_sessionToken :: "nat list option"

definition BaseClient_constructor_units ::
  "env \<Rightarrow> UnitsConfig option \<Rightarrow> heap \<Rightarrow> (dom_exception + BaseClient) \<times> heap" where
  "BaseClient_constructor_units e parent h =
     (let cfg = (case parent of
                   None \<Rightarrow> \<lparr>u_queryTree = None, u_host = None, u_sessionToken = None\<rparr>
                 | Some c \<Rightarrow> c);
          (r, h') = (case u_queryTree cfg of Some a \<Rightarrow> (a, h) | None \<Rightarrow> alloc [] h);
          hst = str_or (u_host cfg) ''127.0.0.1:8080''
      in (case btoa_units (to_units (u_sessionToken cfg) @ map of_char '':'') of
            Inl err \<Rightarrow> (Inl err, h')
          | Inr b64 \<Rightarrow>
              (Inr \<lparr>b_queryTree = r,
                    client = \<lparr>url = endpoint_url e hst,
                               headers =
                                 [(''Authorization'', ''Basic '' @ b64),
                                  (''X-FluentCI-Session-ID'',
                                   str_or (e ''FLUENTCI_SESSION_ID'') [])]\<rparr>,
                    clientHost = hst,
                    sessionToken =
                      str_or (map_option (map char_of) (u_sessionToken cfg)) []\<rparr>, h')))"

definition Container_constructor_units ::
  "env \<Rightarrow> UnitsConfig option \<Rightarrow> jsval \<Rightarrow> jsval \<Rightarrow> jsval \<Rightarrow> jsval \<Rightarrow> jsval \<Rightarrow> jsval
     \<Rightarrow> jsval \<Rightarrow> jsval \<Rightarrow> jsval \<Rightarrow> jsval \<Rightarrow> jsval \<Rightarrow> jsval \<Rightarrow> jsval \<Rightarrow> jsval \<Rightarrow> jsval
     \<Rightarrow> heap \<Rightarrow> (dom_exception + Container) \<times> heap" where
  "Container_constructor_units e parent a_id a_endpoint a_envVariable a_export a_hostname
       a_imageRef a_label a_platform a_publish a_shellEndpoint a_stderr a_stdout a_sync a_user
       a_workdir h =
     (case BaseClient_constructor_units e parent h of
        (Inl err, h') \<Rightarrow> (Inl err, h')
      | (Inr b, h') \<Rightarrow>
          (Inr \<lparr>b_queryTree = b_queryTree b, client = client b, clientHost = clientHost b,
                sessionToken = sessionToken b, c_id = a_id, c_endpoint = a_endpoint,
                c_envVariable = a_envVariable, c_export = a_export, c_hostname = a_hostname,
                c_imageRef = a_imageRef, c_label = a_label, c_platform = a_platform,
                c_publish = a_publish, c_shellEndpoint = a_shellEndpoint, c_stderr = a_stderr,
                c_stdout = a_stdout, c_sync = a_sync, c_user = a_user,
                c_workdir = a_workdir\<rparr>, h'))"

text \<open>
  \<^verbatim>\<open>Container.from\<close> with that constructor: the token it passes is the receiver's field.
\<close>

definition Container_from_units ::
  "env \<Rightarrow> Container \<Rightarrow> string \<Rightarrow> heap \<Rightarrow> (dom_exception + Container) \<times> heap" where
  "Container_from_units e self address h =
     (let (r, h1) = alloc (h ! b_queryTree self @
                      [\<lparr>operation = ''from'', args = Some [(''address'', JStr address)]\<rparr>]) h
      in Container_constructor_units e
           (Some \<lparr>u_queryTree = Some r, u_host = Some (clientHost self),
                  u_sessionToken = Some (map of_char (sessionToken self))\<rparr>)
           JUndefined JUndefined JUndefined JUndefined JUndefined JUndefined JUndefined
           JUndefined JUndefined JUndefined JUndefined JUndefined JUndefined JUndefined
           JUndefined h1)"

section \<open>The words of the specification\<close>

text \<open>
  A literal IPv4 address in the sense of the specification: four groups of one to
  three digits, separated by dots, and nothing else.
\<close>

definition digit_group :: "string \<Rightarrow> bool" where
  "digit_group a = (a \<noteq> [] \<and> length a \<le> 3 \<and> list_all is_digit a)"

fun split_on :: "char \<Rightarrow> string \<Rightarrow> string list" where
  "split_on c [] = [[]]"
| "split_on c (x # xs) =
     (if x = c then [] # split_on c xs
      else (case split_on c xs of [] \<Rightarrow> [[x]] | g # gs \<Rightarrow> (x # g) # gs))"

definition dotted_quad :: "string \<Rightarrow> bool" where
  "dotted_quad s =
     (case split_on (CHR ''.'') s of
        [a, b, c, d] \<Rightarrow> digit_group a \<and> digit_group b \<and> digit_group c \<and> digit_group d
      | _ \<Rightarrow> False)"

section \<open>A root object\<close>

text \<open>\<^verbatim>\<open>new Container()\<close> in an empty store and an empty environment.\<close>

abbreviation fresh_Container :: "Container \<times> heap" where
  "fresh_Container \<equiv>
     Container_constructor Map.empty None JUndefined JUndefined JUndefined JUndefined
       JUndefined JUndefined JUndefined JUndefined JUndefined JUndefined JUndefined
       JUndefined JUndefined JUndefined JUndefined []"

text \<open>\<^verbatim>\<open>new Container(undefined, ...)\<close> with \<^verbatim>\<open>_export\<close> and \<^verbatim>\<open>_publish\<close> given.\<close>

abbreviation cached_Container :: "Container \<times> heap" where
  "cached_Container \<equiv>
     Container_constructor Map.empty None JUndefined JUndefined JUndefined (JBool True)
       JUndefined JUndefined JUndefined JUndefined (JStr ''reg/img@sha256:0'') JUndefined
       JUndefined JUndefined JUndefined JUndefined JUndefined []"

section \<open>Auxiliary facts\<close>

lemma str_or_Some_empty: "str_or (Some s) [] = s"
  by (simp add: str_or_def)

lemma str_or_Some_nonempty: "s \<noteq> [] \<Longrightarrow> str_or (Some s) d = s"
  by (simp add: str_or_def)

lemma str_or_nonempty: "d \<noteq> [] \<Longrightarrow> str_or x d \<noteq> []"
  by (simp add: str_or_def split: option.splits)

lemma BaseClient_constructor_given:
  "BaseClient_constructor e
     (Some \<lparr>cfg_queryTree = Some r, cfg_host = hst, cfg_sessionToken = tok\<rparr>) h =
   (\<lparr>b_queryTree = r,
     client = \<lparr>url = endpoint_url e (str_or hst ''127.0.0.1:8080''),
                headers = request_headers e tok\<rparr>,
     clientHost = str_or hst ''127.0.0.1:8080'',
     sessionToken = str_or tok []\<rparr>, h)"
  by (simp add: BaseClient_constructor_def Let_def)

lemma BaseClient_constructor_host: "clientHost (fst (BaseClient_constructor e parent h)) \<noteq> []"
  by (simp add: BaseClient_constructor_def Let_def str_or_nonempty split: prod.splits)

lemma new_Container_given:
  "new_Container e \<lparr>cfg_queryTree = Some r, cfg_host = hst, cfg_sessionToken = tok\<rparr> h = (c, h')
   \<Longrightarrow> h' = h \<and> b_queryTree c = r \<and> clientHost c = str_or hst ''127.0.0.1:8080''
       \<and> sessionToken c = str_or tok []"
  by (auto simp: new_Container_def Container_constructor_def BaseClient_constructor_given)

lemma Container_from_result:
  "Container_from e a address h = (b, h') \<Longrightarrow>
     h' = h @ [h ! b_queryTree a @ [\<lparr>operation = ''from'', args = Some [(''address'', JStr address)]\<rparr>]]
     \<and> b_queryTree b = length h \<and> clientHost b = str_or (Some (clientHost a)) ''127.0.0.1:8080''
     \<and> sessionToken b = sessionToken a"
  by (auto simp: Container_from_def alloc_def str_or_Some_empty dest!: new_Container_given)

lemma Container_withExec_result:
  "Container_withExec e a xs opts h = (b, h') \<Longrightarrow>
     h' = h @ [h ! b_queryTree a @ [\<lparr>operation = ''withExec'',
                        args = Some (spread [(''args'', JArr (map JStr xs))] opts)\<rparr>]]
     \<and> b_queryTree b = length h \<and> clientHost b = str_or (Some (clientHost a)) ''127.0.0.1:8080''
     \<and> sessionToken b = sessionToken a"
  by (auto simp: Container_withExec_def alloc_def str_or_Some_empty dest!: new_Container_given)

lemma Container_withWorkdir_result:
  "Container_withWorkdir e a path h = (b, h') \<Longrightarrow>
     h' = h @ [h ! b_queryTree a @ [\<lparr>operation = ''withWorkdir'', args = Some [(''path'', JStr path)]\<rparr>]]
     \<and> b_queryTree b = length h \<and> clientHost b = str_or (Some (clientHost a)) ''127.0.0.1:8080''
     \<and> sessionToken b = sessionToken a"
  by (auto simp: Container_withWorkdir_def alloc_def str_or_Some_empty dest!: new_Container_given)

lemma Container_directory_result:
  "Container_directory e a path h = (b, h') \<Longrightarrow>
     h' = h @ [h ! b_queryTree a @ [\<lparr>operation = ''directory'', args = Some [(''path'', JStr path)]\<rparr>]]
     \<and> b_queryTree b = length h \<and> clientHost b = str_or (Some (clientHost a)) ''127.0.0.1:8080''
     \<and> sessionToken b = sessionToken a"
  by (auto simp: Container_directory_def Directory_constructor_def alloc_def str_or_Some_empty
        BaseClient_constructor_given)

lemma fresh_Container_tree:
  "fresh_Container = (a, h) \<Longrightarrow> b_queryTree a = 0 \<and> h = [[]] \<and> clientHost a = ''127.0.0.1:8080''
     \<and> sessionToken a = []"
  by (auto simp: Container_constructor_def BaseClient_constructor_def alloc_def Let_def str_or_def)

lemma EnvVariable_constructor_None:
  "EnvVariable_constructor Map.empty None n v [] = (x, h) \<Longrightarrow>
     h = [[]] \<and> b_queryTree x = 0 \<and> ev_name x = n \<and> ev_value x = v"
  by (auto simp: EnvVariable_constructor_def BaseClient_constructor_def alloc_def Let_def)

lemma BaseClient_constructor_client:
  "client (fst (BaseClient_constructor e (Some cfg) h)) =
     \<lparr>url = endpoint_url e (str_or (cfg_host cfg) ''127.0.0.1:8080''),
      headers = request_headers e (cfg_sessionToken cfg)\<rparr>"
  by (simp add: BaseClient_constructor_def Let_def split: prod.splits option.splits)

lemma BaseClient_constructor_url:
  "url (client (fst (BaseClient_constructor e parent h))) =
     endpoint_url e (clientHost (fst (BaseClient_constructor e parent h)))"
  by (simp add: BaseClient_constructor_def Let_def split: prod.splits option.splits)

subsection \<open>The regular expression matches exactly the strings containing a dotted quad\<close>

lemma digits_1_3_iff:
  "r \<in> set (digits_1_3 s) \<longleftrightarrow> (\<exists>a. digit_group a \<and> s = a @ r)"
proof
  assume "r \<in> set (digits_1_3 s)"
  then obtain k where k: "k \<in> {1, 2, 3}" "k \<le> length s" "list_all is_digit (take k s)" "r = drop k s"
    unfolding digits_1_3_def set_map set_filter by auto
  then have "digit_group (take k s)" "s = take k s @ r"
    by (auto simp: digit_group_def)
  then show "\<exists>a. digit_group a \<and> s = a @ r" by blast
next
  assume "\<exists>a. digit_group a \<and> s = a @ r"
  then obtain a where a: "digit_group a" "s = a @ r" by blast
  then have "0 < length a \<and> length a \<le> 3"
    by (simp add: digit_group_def)
  then have "length a = 1 \<or> length a = 2 \<or> length a = 3"
    by arith
  then have "length a \<in> {1, 2, 3}"
    by blast
  moreover have "length a \<le> length s" "list_all is_digit (take (length a) s)" "r = drop (length a) s"
    using a by (auto simp: digit_group_def)
  ultimately show "r \<in> set (digits_1_3 s)"
    unfolding digits_1_3_def set_map set_filter by auto
qed

lemma literal_dot_iff: "r \<in> set (literal_dot s) \<longleftrightarrow> s = CHR ''.'' # r"
  by (auto simp: literal_dot_def split: list.splits)

lemma digits_dot_iff:
  "r \<in> set (digits_dot s) \<longleftrightarrow> (\<exists>a. digit_group a \<and> s = a @ CHR ''.'' # r)"
  by (auto simp: digits_dot_def digits_1_3_iff literal_dot_iff)

lemma concat_map_nonempty: "concat (map f xs) \<noteq> [] \<longleftrightarrow> (\<exists>x\<in>set xs. f x \<noteq> [])"
  by (induction xs) auto

lemma bex_concat_map:
  "(\<exists>r\<in>set (concat (map f xs)). P r) \<longleftrightarrow> (\<exists>x\<in>set xs. \<exists>r\<in>set (f x). P r)"
  by (induction xs) auto

lemma nonempty_mem: "xs \<noteq> [] \<longleftrightarrow> (\<exists>x. x \<in> set xs)"
  by (cases xs) auto

lemma ipv4_here_chain:
  "ipv4_here s \<longleftrightarrow>
      (\<exists>r1 r2 r3 r4. r1 \<in> set (digits_dot s) \<and> r2 \<in> set (digits_dot r1) \<and>
         r3 \<in> set (digits_dot r2) \<and> r4 \<in> set (digits_1_3 r3))"
proof -
  have "ipv4_here s \<longleftrightarrow>
      (\<exists>r3\<in>set (concat (map digits_dot (concat (map digits_dot (digits_dot s))))).
         digits_1_3 r3 \<noteq> [])"
    unfolding ipv4_here_def by (rule concat_map_nonempty)
  also have "\<dots> \<longleftrightarrow> (\<exists>r2\<in>set (concat (map digits_dot (digits_dot s))).
         \<exists>r3\<in>set (digits_dot r2). digits_1_3 r3 \<noteq> [])"
    by (rule bex_concat_map)
  also have "\<dots> \<longleftrightarrow> (\<exists>r1\<in>set (digits_dot s). \<exists>r2\<in>set (digits_dot r1).
         \<exists>r3\<in>set (digits_dot r2). digits_1_3 r3 \<noteq> [])"
    by (rule bex_concat_map)
  also have "\<dots> \<longleftrightarrow> (\<exists>r1 r2 r3 r4. r1 \<in> set (digits_dot s) \<and> r2 \<in> set (digits_dot r1) \<and>
         r3 \<in> set (digits_dot r2) \<and> r4 \<in> set (digits_1_3 r3))"
    unfolding nonempty_mem by blast
  finally show ?thesis .
qed

lemma ipv4_here_iff:
  "ipv4_here s \<longleftrightarrow>
     (\<exists>a b c d post. digit_group a \<and> digit_group b \<and> digit_group c \<and> digit_group d \<and>
        s = a @ CHR ''.'' # b @ CHR ''.'' # c @ CHR ''.'' # d @ post)"
proof
  assume "ipv4_here s"
  then obtain r1 r2 r3 r4 where r: "r1 \<in> set (digits_dot s)" "r2 \<in> set (digits_dot r1)"
      "r3 \<in> set (digits_dot r2)" "r4 \<in> set (digits_1_3 r3)"
    unfolding ipv4_here_chain by blast
  from r(1) obtain a where a: "digit_group a" "s = a @ CHR ''.'' # r1"
    unfolding digits_dot_iff by blast
  from r(2) obtain b where b: "digit_group b" "r1 = b @ CHR ''.'' # r2"
    unfolding digits_dot_iff by blast
  from r(3) obtain c where c: "digit_group c" "r2 = c @ CHR ''.'' # r3"
    unfolding digits_dot_iff by blast
  from r(4) obtain d where d: "digit_group d" "r3 = d @ r4"
    unfolding digits_1_3_iff by blast
  have "s = a @ CHR ''.'' # b @ CHR ''.'' # c @ CHR ''.'' # d @ r4"
    using a(2) b(2) c(2) d(2) by simp
  then show "\<exists>a b c d post. digit_group a \<and> digit_group b \<and> digit_group c \<and> digit_group d \<and>
        s = a @ CHR ''.'' # b @ CHR ''.'' # c @ CHR ''.'' # d @ post"
    using a(1) b(1) c(1) d(1) by blast
next
  assume "\<exists>a b c d post. digit_group a \<and> digit_group b \<and> digit_group c \<and> digit_group d \<and>
        s = a @ CHR ''.'' # b @ CHR ''.'' # c @ CHR ''.'' # d @ post"
  then obtain a b c d post where g: "digit_group a" "digit_group b" "digit_group c" "digit_group d"
      and s: "s = a @ CHR ''.'' # b @ CHR ''.'' # c @ CHR ''.'' # d @ post"
    by blast
  have 4: "post \<in> set (digits_1_3 (d @ post))"
    unfolding digits_1_3_iff using g(4) by blast
  have 3: "d @ post \<in> set (digits_dot (c @ CHR ''.'' # d @ post))"
    unfolding digits_dot_iff using g(3) by blast
  have 2: "c @ CHR ''.'' # d @ post \<in> set (digits_dot (b @ CHR ''.'' # c @ CHR ''.'' # d @ post))"
    unfolding digits_dot_iff using g(2) by blast
  have 1: "b @ CHR ''.'' # c @ CHR ''.'' # d @ post \<in> set (digits_dot s)"
    unfolding digits_dot_iff s using g(1) by blast
  show "ipv4_here s"
    unfolding ipv4_here_chain using 1 2 3 4 by blast
qed

lemma match_ipv4_iff:
  "match_ipv4 s \<longleftrightarrow> (\<exists>pre suf. s = pre @ suf \<and> ipv4_here suf)"
proof (induction s)
  case Nil
  then show ?case by simp
next
  case (Cons c r)
  show ?case
  proof
    assume "match_ipv4 (c # r)"
    then consider "ipv4_here (c # r)" | "match_ipv4 r" by auto
    then show "\<exists>pre suf. c # r = pre @ suf \<and> ipv4_here suf"
    proof cases
      case 1 then show ?thesis by (intro exI [of _ "[]"] exI [of _ "c # r"]) simp
    next
      case 2
      then obtain pre suf where "r = pre @ suf" "ipv4_here suf" using Cons.IH by blast
      then show ?thesis by (intro exI [of _ "c # pre"] exI [of _ suf]) simp
    qed
  next
    assume "\<exists>pre suf. c # r = pre @ suf \<and> ipv4_here suf"
    then obtain pre suf where ps: "c # r = pre @ suf" "ipv4_here suf" by blast
    show "match_ipv4 (c # r)"
    proof (cases pre)
      case Nil
      then have "suf = c # r" using ps by simp
      then show ?thesis using ps(2) by simp
    next
      case (Cons p pre')
      then have "r = pre' @ suf" using ps by simp
      then show ?thesis using ps Cons.IH by auto
    qed
  qed
qed


lemma match_ipv4_contains:
  "match_ipv4 s \<longleftrightarrow>
     (\<exists>pre a b c d post. digit_group a \<and> digit_group b \<and> digit_group c \<and> digit_group d \<and>
        s = pre @ a @ ''.'' @ b @ ''.'' @ c @ ''.'' @ d @ post)"
  unfolding match_ipv4_iff ipv4_here_iff by (simp; blast)

subsection \<open>Lifting the records of a response\<close>

lemma get_prop_defined:
  "r \<noteq> JUndefined \<Longrightarrow> r \<noteq> JNull \<Longrightarrow> \<exists>v. get_prop r k = Inr v"
  by (cases r) auto

lemma lift_EnvVariable_defined:
  assumes "r \<noteq> JUndefined" "r \<noteq> JNull"
  shows "\<exists>x. lift_EnvVariable e self r h = (Inr x, h) \<and> b_queryTree x = b_queryTree self \<and>
           get_prop r ''name'' = Inr (ev_name x) \<and> get_prop r ''value'' = Inr (ev_value x)"
proof -
  obtain n v where "get_prop r ''name'' = Inr n" "get_prop r ''value'' = Inr v"
    using assms get_prop_defined by blast
  then show ?thesis
    by (simp add: lift_EnvVariable_def EnvVariable_constructor_def queryTree_def
          BaseClient_constructor_given)
qed

lemma lift_Port_defined:
  assumes "r \<noteq> JUndefined" "r \<noteq> JNull"
  shows "\<exists>x. lift_Port e self r h = (Inr x, h) \<and> b_queryTree x = b_queryTree self \<and>
           get_prop r ''description'' = Inr (p_description x) \<and>
           get_prop r ''port'' = Inr (p_port x) \<and>
           get_prop r ''protocol'' = Inr (p_protocol x)"
proof -
  obtain d p pr where "get_prop r ''description'' = Inr d" "get_prop r ''port'' = Inr p"
      "get_prop r ''protocol'' = Inr pr"
    using assms get_prop_defined by blast
  then show ?thesis
    by (simp add: lift_Port_def Port_constructor_def queryTree_def BaseClient_constructor_given)
qed

lemma map_new_all:
  assumes "\<And>r. r \<in> set rs \<Longrightarrow> \<exists>x. f r h = (Inr x, h) \<and> P r x"
  shows "\<exists>xs. map_new f rs h = (Inr xs, h) \<and> list_all2 P rs xs"
  using assms
proof (induction rs)
  case Nil
  then show ?case by simp
next
  case (Cons r rs)
  obtain x where x: "f r h = (Inr x, h)" "P r x"
    using Cons.prems by force
  obtain xs where xs: "map_new f rs h = (Inr xs, h)" "list_all2 P rs xs"
    using Cons by force
  show ?case
    using x xs by simp
qed

subsection \<open>The root objects\<close>

lemma cached_Container_fields:
  "cached_Container = (c, h) \<Longrightarrow>
     c_export c = JBool True \<and> c_publish c = JStr ''reg/img@sha256:0''"
  by (auto simp: Container_constructor_def Let_def split: prod.splits)

lemma fresh_Container_fields:
  "fresh_Container = (c, h) \<Longrightarrow>
     c_id c = JUndefined \<and> c_export c = JUndefined \<and> c_publish c = JUndefined \<and>
     c_sync c = JUndefined"
  by (auto simp: Container_constructor_def Let_def split: prod.splits)

subsection \<open>Code units\<close>

lemma latin1_of_char: "latin1 (map of_char (s :: string))"
  by (simp add: latin1_def list_all_iff)

lemma latin1_append: "latin1 (us @ vs) \<longleftrightarrow> latin1 us \<and> latin1 vs"
  by (simp add: latin1_def)

lemma char_of_colon: "char_of (58::nat) = CHR '':''"
  by (simp add: char_of_eq_iff take_bit_eq_mod)

lemma btoa_units_colon:
  "btoa_units (us @ [58]) =
     (if latin1 us then Inr (btoa (map char_of us @ '':'')) else Inl InvalidCharacterError)"
  by (simp add: btoa_units_def latin1_append latin1_def char_of_colon)

lemma BaseClient_constructor_units_given:
  "BaseClient_constructor_units e
     (Some \<lparr>u_queryTree = Some r, u_host = hst, u_sessionToken = tok\<rparr>) h =
   (if latin1 (to_units tok)
    then Inr \<lparr>b_queryTree = r,
              client = \<lparr>url = endpoint_url e (str_or hst ''127.0.0.1:8080''),
                         headers =
                           [(''Authorization'',
                             ''Basic '' @ btoa (map char_of (to_units tok) @ '':'')),
                            (''X-FluentCI-Session-ID'', str_or (e ''FLUENTCI_SESSION_ID'') [])]\<rparr>,
              clientHost = str_or hst ''127.0.0.1:8080'',
              sessionToken = str_or (map_option (map char_of) tok) []\<rparr>
    else Inl InvalidCharacterError, h)"
  by (simp add: BaseClient_constructor_units_def Let_def btoa_units_colon del: btoa.simps)

lemma to_units_of_string:
  "to_units (map_option (map of_char) tok) = map of_char (to_string tok)"
  by (cases tok) (simp_all add: to_units_def to_string_def)

lemma char_of_of_char_string: "map char_of (map of_char (s :: string) :: nat list) = s"
  by (induction s) simp_all

lemma units_round_trip:
  "map_option (map char_of) (map_option (map of_char) (tok :: string option) :: nat list option) = tok"
  by (cases tok) (simp_all add: char_of_of_char_string)

lemma BaseClient_constructor_units_agrees:
  "BaseClient_constructor_units e
     (Some \<lparr>u_queryTree = Some r, u_host = hst,
            u_sessionToken = map_option (map of_char) tok\<rparr>) h =
   (Inr (fst (BaseClient_constructor e
                (Some \<lparr>cfg_queryTree = Some r, cfg_host = hst, cfg_sessionToken = tok\<rparr>) h)),
    snd (BaseClient_constructor e
                (Some \<lparr>cfg_queryTree = Some r, cfg_host = hst, cfg_sessionToken = tok\<rparr>) h))"
  unfolding BaseClient_constructor_units_given BaseClient_constructor_given to_units_of_string
    units_round_trip
  by (simp add: latin1_of_char char_of_of_char_string request_headers_def del: btoa.simps)

section \<open>Deferred calls and the query tree\<close>

text \<open>
  Claim C1. Let \<open>a\<close> be a container whose tree array is in the store. Each of
  \<^verbatim>\<open>from\<close>, \<^verbatim>\<open>withExec\<close> and \<^verbatim>\<open>withWorkdir\<close> returns an object \<open>b\<close> with an array of its
  own: the array of \<open>a\<close> holds the same nodes as before, every array that existed before
  the call is unchanged, and the array of \<open>b\<close> holds the nodes of \<open>a\<close> followed by exactly
  one node made of the operation name and the arguments of the call.
\<close>

theorem deferred_call_appends_one_node:
  assumes "b_queryTree a < length h"
  shows "(case Container_from e a address h of (b, h') \<Rightarrow>
            h' ! b_queryTree a = h ! b_queryTree a \<and>
            take (length h) h' = h \<and>
            b_queryTree b \<noteq> b_queryTree a \<and>
            h' ! b_queryTree b = h ! b_queryTree a @
              [\<lparr>operation = ''from'', args = Some [(''address'', JStr address)]\<rparr>]) \<and>
         (case Container_withExec e a xs opts h of (b, h') \<Rightarrow>
            h' ! b_queryTree a = h ! b_queryTree a \<and>
            take (length h) h' = h \<and>
            b_queryTree b \<noteq> b_queryTree a \<and>
            h' ! b_queryTree b = h ! b_queryTree a @
              [\<lparr>operation = ''withExec'',
                args = Some (spread [(''args'', JArr (map JStr xs))] opts)\<rparr>]) \<and>
         (case Container_withWorkdir e a path h of (b, h') \<Rightarrow>
            h' ! b_queryTree a = h ! b_queryTree a \<and>
            take (length h) h' = h \<and>
            b_queryTree b \<noteq> b_queryTree a \<and>
            h' ! b_queryTree b = h ! b_queryTree a @
              [\<lparr>operation = ''withWorkdir'', args = Some [(''path'', JStr path)]\<rparr>])"
  using assms
  by (auto simp: nth_append dest!: Container_from_result Container_withExec_result
        Container_withWorkdir_result)

theorem deferred_call_appends_one_node_witness:
  "(case Container_constructor Map.empty None JUndefined JUndefined JUndefined JUndefined
          JUndefined JUndefined JUndefined JUndefined JUndefined JUndefined JUndefined
          JUndefined JUndefined JUndefined JUndefined [] of
      (a, h) \<Rightarrow>
        b_queryTree a < length h \<and> h ! b_queryTree a = [] \<and>
        (case Container_from Map.empty a ''alpine'' h of
           (b, h') \<Rightarrow>
             h' ! b_queryTree a = [] \<and>
             h' ! b_queryTree b =
               [\<lparr>operation = ''from'', args = Some [(''address'', JStr ''alpine'')]\<rparr>]))"
proof -
  obtain a h where c: "Container_constructor Map.empty None JUndefined JUndefined JUndefined
          JUndefined JUndefined JUndefined JUndefined JUndefined JUndefined JUndefined JUndefined
          JUndefined JUndefined JUndefined JUndefined [] = (a, h)"
    by (cases "Container_constructor Map.empty None JUndefined JUndefined JUndefined
          JUndefined JUndefined JUndefined JUndefined JUndefined JUndefined JUndefined JUndefined
          JUndefined JUndefined JUndefined JUndefined []") 
  then have v: "b_queryTree a < length h" and t: "h ! b_queryTree a = []"
    by (auto simp: Container_constructor_def BaseClient_constructor_def alloc_def Let_def)
  have "case Container_from Map.empty a ''alpine'' h of
          (b, h') \<Rightarrow>
            h' ! b_queryTree a = h ! b_queryTree a \<and>
            take (length h) h' = h \<and>
            b_queryTree b \<noteq> b_queryTree a \<and>
            h' ! b_queryTree b = h ! b_queryTree a @
              [\<lparr>operation = ''from'', args = Some [(''address'', JStr ''alpine'')]\<rparr>]"
    using deferred_call_appends_one_node [where a = a and h = h and e = Map.empty
        and address = "''alpine''" and xs = "[]" and opts = None and path = "[]", OF v]
    by (rule conjunct1)
  then show ?thesis
    using v t by (auto simp: c split: prod.splits)
qed

text \<open>
  Claim C8. Two calls on the same container \<open>a\<close>, \<^verbatim>\<open>withExec\<close> giving \<open>b\<close> and then
  \<^verbatim>\<open>withWorkdir\<close> giving \<open>c\<close>: both arrays start with the nodes of \<open>a\<close> and differ only in
  the node that follows; the second call leaves the arrays of \<open>b\<close> and of \<open>a\<close> as they were.
\<close>

theorem forked_chains_share_prefix:
  assumes "b_queryTree a < length h"
  shows "(case Container_withExec e a xs opts h of (b, h1) \<Rightarrow>
          (case Container_withWorkdir e a path h1 of (c, h2) \<Rightarrow>
             h1 ! b_queryTree b = h ! b_queryTree a @
               [\<lparr>operation = ''withExec'',
                 args = Some (spread [(''args'', JArr (map JStr xs))] opts)\<rparr>] \<and>
             h2 ! b_queryTree c = h ! b_queryTree a @
               [\<lparr>operation = ''withWorkdir'', args = Some [(''path'', JStr path)]\<rparr>] \<and>
             h2 ! b_queryTree b = h1 ! b_queryTree b \<and>
             h2 ! b_queryTree a = h ! b_queryTree a \<and>
             b_queryTree b \<noteq> b_queryTree c \<and>
             take (length (h ! b_queryTree a)) (h2 ! b_queryTree b) = h ! b_queryTree a \<and>
             take (length (h ! b_queryTree a)) (h2 ! b_queryTree c) = h ! b_queryTree a))"
  using assms
  by (auto simp: nth_append dest!: Container_withExec_result Container_withWorkdir_result)

theorem forked_chains_share_prefix_witness:
  "(case fresh_Container of
      (a, h) \<Rightarrow>
        b_queryTree a < length h \<and>
        (case Container_withExec Map.empty a [''ls''] None h of
           (b, h1) \<Rightarrow>
             (case Container_withWorkdir Map.empty a ''/app'' h1 of
                (c, h2) \<Rightarrow>
                  h2 ! b_queryTree a = [] \<and>
                  h2 ! b_queryTree b =
                    [\<lparr>operation = ''withExec'', args = Some [(''args'', JArr [JStr ''ls''])]\<rparr>] \<and>
                  h2 ! b_queryTree c =
                    [\<lparr>operation = ''withWorkdir'', args = Some [(''path'', JStr ''/app'')]\<rparr>])))"
proof -
  obtain a h where c: "fresh_Container = (a, h)"
    by (cases fresh_Container)
  then have v: "b_queryTree a < length h" and t: "h ! b_queryTree a = []"
    by (auto dest!: fresh_Container_tree)
  show ?thesis
    using forked_chains_share_prefix [where a = a and h = h and e = Map.empty
        and xs = "[''ls'']" and opts = None and path = "''/app''", OF v] v t
    by (auto simp: c spread_def split: prod.splits)
qed

section \<open>The connection context\<close>

text \<open>
  Claim C9. The constructor leaves \<open>clientHost\<close> non-empty (\<open>BaseClient_constructor_host\<close>),
  and for such a receiver \<^verbatim>\<open>from\<close>, \<^verbatim>\<open>directory\<close>, \<^verbatim>\<open>withExec\<close> and \<^verbatim>\<open>withWorkdir\<close> return an
  object with the receiver's host and session token. The node \<^verbatim>\<open>from\<close> and \<^verbatim>\<open>directory\<close>
  append is made of the operation name and the arguments of the call only, and the store
  after the call is the same whatever the host, the session token and the transport
  object of the receiver are.
\<close>

theorem connection_context_propagates:
  assumes "clientHost a \<noteq> []"
  shows "(case Container_from e a address h of (b, h') \<Rightarrow>
            clientHost b = clientHost a \<and> sessionToken b = sessionToken a \<and>
            h' ! b_queryTree b = h ! b_queryTree a @
              [\<lparr>operation = ''from'', args = Some [(''address'', JStr address)]\<rparr>]) \<and>
         (case Container_directory e a path h of (d, h') \<Rightarrow>
            clientHost d = clientHost a \<and> sessionToken d = sessionToken a \<and>
            h' ! b_queryTree d = h ! b_queryTree a @
              [\<lparr>operation = ''directory'', args = Some [(''path'', JStr path)]\<rparr>]) \<and>
         (case Container_withExec e a xs opts h of (b, h') \<Rightarrow>
            clientHost b = clientHost a \<and> sessionToken b = sessionToken a) \<and>
         (case Container_withWorkdir e a path h of (b, h') \<Rightarrow>
            clientHost b = clientHost a \<and> sessionToken b = sessionToken a) \<and>
         snd (Container_from e (a\<lparr>client := cl, clientHost := hst, sessionToken := tok\<rparr>) address h)
           = snd (Container_from e a address h) \<and>
         snd (Container_directory e (a\<lparr>client := cl, clientHost := hst, sessionToken := tok\<rparr>) path h)
           = snd (Container_directory e a path h)"
proof -
  have 1: "case Container_from e a address h of (b, h') \<Rightarrow>
            clientHost b = clientHost a \<and> sessionToken b = sessionToken a \<and>
            h' ! b_queryTree b = h ! b_queryTree a @
              [\<lparr>operation = ''from'', args = Some [(''address'', JStr address)]\<rparr>]"
    using assms by (auto simp: str_or_Some_nonempty dest!: Container_from_result)
  have 2: "case Container_directory e a path h of (d, h') \<Rightarrow>
            clientHost d = clientHost a \<and> sessionToken d = sessionToken a \<and>
            h' ! b_queryTree d = h ! b_queryTree a @
              [\<lparr>operation = ''directory'', args = Some [(''path'', JStr path)]\<rparr>]"
    using assms by (auto simp: str_or_Some_nonempty dest!: Container_directory_result)
  have 3: "snd (Container_from e x address h) =
      h @ [h ! b_queryTree x @ [\<lparr>operation = ''from'', args = Some [(''address'', JStr address)]\<rparr>]]"
    for x
    by (cases "Container_from e x address h") (auto dest!: Container_from_result)
  have 4: "snd (Container_directory e x path h) =
      h @ [h ! b_queryTree x @ [\<lparr>operation = ''directory'', args = Some [(''path'', JStr path)]\<rparr>]]"
    for x
    by (cases "Container_directory e x path h") (auto dest!: Container_directory_result)
  have 5: "case Container_withExec e a xs opts h of (b, h') \<Rightarrow>
            clientHost b = clientHost a \<and> sessionToken b = sessionToken a"
    using assms by (auto simp: str_or_Some_nonempty dest!: Container_withExec_result)
  have 6: "case Container_withWorkdir e a path h of (b, h') \<Rightarrow>
            clientHost b = clientHost a \<and> sessionToken b = sessionToken a"
    using assms by (auto simp: str_or_Some_nonempty dest!: Container_withWorkdir_result)
  show ?thesis
    using 1 2 5 6 by (simp add: 3 4)
qed

theorem connection_context_propagates_witness:
  "(case fresh_Container of
      (a, h) \<Rightarrow>
        clientHost a \<noteq> [] \<and>
        (case Container_from Map.empty a ''alpine'' h of
           (b, h') \<Rightarrow>
             clientHost b = ''127.0.0.1:8080'' \<and> sessionToken b = [] \<and>
             h' ! b_queryTree b =
               [\<lparr>operation = ''from'', args = Some [(''address'', JStr ''alpine'')]\<rparr>]))"
proof -
  obtain a h where c: "fresh_Container = (a, h)"
    by (cases fresh_Container)
  then have v: "clientHost a \<noteq> []" and t: "h ! b_queryTree a = []"
      and k: "clientHost a = ''127.0.0.1:8080''" "sessionToken a = []"
    by (auto dest!: fresh_Container_tree)
  have "case Container_from Map.empty a ''alpine'' h of (b, h') \<Rightarrow>
            clientHost b = clientHost a \<and> sessionToken b = sessionToken a \<and>
            h' ! b_queryTree b = h ! b_queryTree a @
              [\<lparr>operation = ''from'', args = Some [(''address'', JStr ''alpine'')]\<rparr>]"
    using connection_context_propagates [where a = a and h = h and e = Map.empty
        and address = "''alpine''" and path = "[]" and xs = "[]" and opts = None
        and cl = "client a" and hst = "[]" and tok = "[]", OF v]
    by (rule conjunct1)
  then show ?thesis
    using v t k by (auto simp: c split: prod.splits)
qed

section \<open>Cached fields\<close>

text \<open>
  Claim C7, amended. The accessors that test their cached field, \<^verbatim>\<open>Container.id\<close>,
  \<^verbatim>\<open>EnvVariable.name\<close>, \<^verbatim>\<open>EnvVariable.value\<close> and \<^verbatim>\<open>File.size\<close> among them, return the
  cached field without calling the transport when it is truthy, and resolve over the
  transport, with the nodes of the receiver followed by the node of the accessor, when
  it is not. The \<^verbatim>\<open>sync\<close> methods of \<^verbatim>\<open>Container\<close>, \<^verbatim>\<open>Directory\<close> and \<^verbatim>\<open>File\<close>,
  \<^verbatim>\<open>Client.defaultPlatform\<close> and \<^verbatim>\<open>Client.checkVersionCompatibility\<close> do not test their
  cached field: whatever it holds, they resolve over the transport.
\<close>

theorem cached_accessor_shortcut:
  "(truthy (c_id c) \<longrightarrow> Container_id cq c h w = (Inr (c_id c), w)) \<and>
   (\<not> truthy (c_id c) \<longrightarrow>
      Container_id cq c h w =
        cq (h ! b_queryTree c @ [\<lparr>operation = ''id'', args = None\<rparr>]) (client c) w) \<and>
   (truthy (ev_name v) \<longrightarrow> EnvVariable_name cq v h w = (Inr (ev_name v), w)) \<and>
   (\<not> truthy (ev_name v) \<longrightarrow>
      EnvVariable_name cq v h w =
        cq (h ! b_queryTree v @ [\<lparr>operation = ''name'', args = None\<rparr>]) (client v) w) \<and>
   (truthy (ev_value v) \<longrightarrow> EnvVariable_value cq v h w = (Inr (ev_value v), w)) \<and>
   (\<not> truthy (ev_value v) \<longrightarrow>
      EnvVariable_value cq v h w =
        cq (h ! b_queryTree v @ [\<lparr>operation = ''value'', args = None\<rparr>]) (client v) w) \<and>
   (truthy (f_size f) \<longrightarrow> File_size cq f h w = (Inr (f_size f), w)) \<and>
   (\<not> truthy (f_size f) \<longrightarrow>
      File_size cq f h w =
        cq (h ! b_queryTree f @ [\<lparr>operation = ''size'', args = None\<rparr>]) (client f) w) \<and>
   Container_sync cq (c\<lparr>c_sync := x\<rparr>) h w =
     (case cq (h ! b_queryTree c @ [\<lparr>operation = ''sync'', args = None\<rparr>]) (client c) w of
        (Inl err, w') \<Rightarrow> (Inl err, w')
      | (Inr response, w') \<Rightarrow> (Inr (c\<lparr>c_sync := x\<rparr>), w')) \<and>
   Directory_sync cq (d\<lparr>d_sync := x\<rparr>) h w =
     (case cq (h ! b_queryTree d @ [\<lparr>operation = ''sync'', args = None\<rparr>]) (client d) w of
        (Inl err, w') \<Rightarrow> (Inl err, w')
      | (Inr response, w') \<Rightarrow> (Inr (d\<lparr>d_sync := x\<rparr>), w')) \<and>
   File_sync cq (f\<lparr>f_sync := x\<rparr>) h w =
     (case cq (h ! b_queryTree f @ [\<lparr>operation = ''sync'', args = None\<rparr>]) (client f) w of
        (Inl err, w') \<Rightarrow> (Inl err, w')
      | (Inr response, w') \<Rightarrow> (Inr (f\<lparr>f_sync := x\<rparr>), w')) \<and>
   Client_defaultPlatform cq (k\<lparr>cl_defaultPlatform := x\<rparr>) h w =
     cq (h ! b_queryTree k @ [\<lparr>operation = ''defaultPlatform'', args = None\<rparr>]) (client k) w \<and>
   Client_checkVersionCompatibility cq (k\<lparr>cl_checkVersionCompatibility := x\<rparr>) version h w =
     cq (h ! b_queryTree k @
           [\<lparr>operation = ''checkVersionCompatibility'',
             args = Some [(''version'', JStr version)]\<rparr>]) (client k) w"
  by (simp add: Container_id_def EnvVariable_name_def EnvVariable_value_def File_size_def
        Container_sync_def Directory_sync_def File_sync_def Client_defaultPlatform_def
        Client_checkVersionCompatibility_def)

theorem cached_accessor_shortcut_witness:
  "(case EnvVariable_constructor Map.empty None (JStr ''PATH'') JUndefined [] of
      (v, h) \<Rightarrow>
        truthy (ev_name v) \<and> \<not> truthy (ev_value v) \<and>
        EnvVariable_name (recording (JStr ''HOME'')) v h [] = (Inr (JStr ''PATH''), []) \<and>
        EnvVariable_value (recording (JStr ''/bin'')) v h [] =
          (Inr (JStr ''/bin''), [([\<lparr>operation = ''value'', args = None\<rparr>], client v)])) \<and>
   (case fresh_Container of
      (c, h) \<Rightarrow>
        \<not> truthy (c_id c) \<and>
        Container_id (recording (JStr ''xyz'')) c h [] =
          (Inr (JStr ''xyz''), [([\<lparr>operation = ''id'', args = None\<rparr>], client c)]) \<and>
        Container_sync (recording (JStr ''xyz'')) (c\<lparr>c_sync := JStr ''abc''\<rparr>) h [] =
          (Inr (c\<lparr>c_sync := JStr ''abc''\<rparr>),
           [([\<lparr>operation = ''sync'', args = None\<rparr>], client c)]))"
proof -
  obtain v h where v: "EnvVariable_constructor Map.empty None (JStr ''PATH'') JUndefined [] = (v, h)"
    by (cases "EnvVariable_constructor Map.empty None (JStr ''PATH'') JUndefined []")
  obtain c k where c: "fresh_Container = (c, k)"
    by (cases fresh_Container)
  have tv: "truthy (ev_name v)" "\<not> truthy (ev_value v)"
      and nv: "ev_name v = JStr ''PATH''" and hv: "h ! b_queryTree v = []"
    using v by (auto dest!: EnvVariable_constructor_None)
  have tc: "\<not> truthy (c_id c)"
    using c by (auto dest!: fresh_Container_fields)
  have kc: "k ! b_queryTree c = []"
    using c by (auto dest!: fresh_Container_tree)
  note s = cached_accessor_shortcut [where c = c and v = v and cq = "recording (JStr ''HOME'')"
      and h = h and w = "[]"]
  note t = cached_accessor_shortcut [where c = c and v = v and cq = "recording (JStr ''/bin'')"
      and h = h and w = "[]"]
  note r = cached_accessor_shortcut [where c = c and v = v and cq = "recording (JStr ''xyz'')"
      and h = k and w = "[]" and x = "JStr ''abc''"]
  have 1: "EnvVariable_name (recording (JStr ''HOME'')) v h [] = (Inr (JStr ''PATH''), [])"
    using s tv nv by simp
  have 2: "EnvVariable_value (recording (JStr ''/bin'')) v h [] =
          (Inr (JStr ''/bin''), [([\<lparr>operation = ''value'', args = None\<rparr>], client v)])"
    using t tv hv by (simp add: recording_def)
  have 3: "Container_id (recording (JStr ''xyz'')) c k [] =
      (Inr (JStr ''xyz''), [([\<lparr>operation = ''id'', args = None\<rparr>], client c)])"
    using r tc kc by (simp add: recording_def)
  have 4: "Container_sync (recording (JStr ''xyz'')) (c\<lparr>c_sync := JStr ''abc''\<rparr>) k [] =
          (Inr (c\<lparr>c_sync := JStr ''abc''\<rparr>),
           [([\<lparr>operation = ''sync'', args = None\<rparr>], client c)])"
    using r kc by (simp add: recording_def)
  show ?thesis
    using 1 2 3 4 tv tc by (simp add: v c)
qed

text \<open>
  The claim as stated fails for a field pre-populated with the empty string: the
  accessor sends a request and returns the reply.
\<close>

theorem prepopulated_empty_name_counterexample:
  "(case EnvVariable_constructor Map.empty None (JStr []) (JStr ''1'') [] of
      (v, h) \<Rightarrow>
        ev_name v = JStr [] \<and> ev_name v \<noteq> JUndefined \<and>
        EnvVariable_name (recording (JStr ''HOME'')) v h [] =
          (Inr (JStr ''HOME''), [([\<lparr>operation = ''name'', args = None\<rparr>], client v)]))"
  by (auto simp: EnvVariable_name_def recording_def dest!: EnvVariable_constructor_None)

text \<open>
  Claim C10. With the cached field holding \<open>0\<close>, \<open>false\<close> or the empty string, \<^verbatim>\<open>File.size\<close>,
  \<^verbatim>\<open>Container.export\<close>, \<^verbatim>\<open>EnvVariable.value\<close> and \<^verbatim>\<open>EnvVariable.name\<close> do what they do
  with no cached field: they resolve over the transport.
\<close>

theorem falsy_cache_is_ignored:
  "File_size cq (f\<lparr>f_size := JNum 0\<rparr>) h w =
     cq (h ! b_queryTree f @ [\<lparr>operation = ''size'', args = None\<rparr>]) (client f) w \<and>
   Container_export cq (c\<lparr>c_export := JBool False\<rparr>) path opts h w =
     cq (h ! b_queryTree c @
           [\<lparr>operation = ''export'',
             args = Some (set_prop ''__metadata'' image_metadata
                            (spread [(''path'', JStr path)] opts))\<rparr>]) (client c) w \<and>
   EnvVariable_value cq (v\<lparr>ev_value := JStr []\<rparr>) h w =
     cq (h ! b_queryTree v @ [\<lparr>operation = ''value'', args = None\<rparr>]) (client v) w \<and>
   EnvVariable_name cq (v\<lparr>ev_name := JStr []\<rparr>) h w =
     cq (h ! b_queryTree v @ [\<lparr>operation = ''name'', args = None\<rparr>]) (client v) w"
  by (simp add: File_size_def Container_export_def EnvVariable_value_def EnvVariable_name_def)

section \<open>Effectful terminal calls\<close>

text \<open>
  Claim C2, amended. On a container whose cached \<^verbatim>\<open>_export\<close> (\<^verbatim>\<open>_publish\<close>) field is truthy,
  \<^verbatim>\<open>export\<close> (\<^verbatim>\<open>publish\<close>) returns that field and leaves the remote world as it is. On a
  container whose field is not truthy, every invocation is one run of the transport on
  the request, and two invocations in sequence are two runs on the same request, the
  second from the world the first left.
\<close>

theorem effectful_calls_resend:
  "(truthy (c_export c) \<longrightarrow>
      Container_export cq c path opts h w = (Inr (c_export c), w)) \<and>
   (truthy (c_publish c) \<longrightarrow>
      Container_publish cq c address opts h w = (Inr (c_publish c), w)) \<and>
   (\<not> truthy (c_export c) \<longrightarrow>
      (let q = h ! b_queryTree c @
                 [\<lparr>operation = ''export'',
                   args = Some (set_prop ''__metadata'' image_metadata
                                  (spread [(''path'', JStr path)] opts))\<rparr>]
       in Container_export cq c path opts h w = cq q (client c) w \<and>
          Container_export cq c path opts h (snd (Container_export cq c path opts h w)) =
            cq q (client c) (snd (cq q (client c) w)))) \<and>
   (\<not> truthy (c_publish c) \<longrightarrow>
      (let q = h ! b_queryTree c @
                 [\<lparr>operation = ''publish'',
                   args = Some (set_prop ''__metadata'' image_metadata
                                  (spread [(''address'', JStr address)] opts))\<rparr>]
       in Container_publish cq c address opts h w = cq q (client c) w \<and>
          Container_publish cq c address opts h (snd (Container_publish cq c address opts h w)) =
            cq q (client c) (snd (cq q (client c) w))))"
  by (simp add: Container_export_def Container_publish_def Let_def)

theorem effectful_calls_resend_witness:
  "(case fresh_Container of
      (c, h) \<Rightarrow>
        \<not> truthy (c_export c) \<and>
        Container_export (recording (JBool True)) c ''./out'' None h
          (snd (Container_export (recording (JBool True)) c ''./out'' None h [])) =
          (Inr (JBool True),
           [([\<lparr>operation = ''export'',
               args = Some [(''path'', JStr ''./out''), (''__metadata'', image_metadata)]\<rparr>],
             client c),
            ([\<lparr>operation = ''export'',
               args = Some [(''path'', JStr ''./out''), (''__metadata'', image_metadata)]\<rparr>],
             client c)])) \<and>
   (case cached_Container of
      (c, h) \<Rightarrow>
        truthy (c_export c) \<and> truthy (c_publish c) \<and>
        Container_export (recording (JBool False)) c ''./out'' None h [] = (Inr (JBool True), []) \<and>
        Container_publish (recording (JStr ''other'')) c ''reg/img'' None h [] =
          (Inr (JStr ''reg/img@sha256:0''), []))"
proof -
  obtain c h where c: "fresh_Container = (c, h)"
    by (cases fresh_Container)
  obtain d k where d: "cached_Container = (d, k)"
    by (cases cached_Container)
  have tc: "\<not> truthy (c_export c)"
    using c by (auto dest!: fresh_Container_fields)
  have kc: "h ! b_queryTree c = []"
    using c by (auto dest!: fresh_Container_tree)
  have td: "truthy (c_export d)" "truthy (c_publish d)"
      and vd: "c_export d = JBool True" "c_publish d = JStr ''reg/img@sha256:0''"
    using d by (auto dest!: cached_Container_fields)
  note r = effectful_calls_resend [where c = c and cq = "recording (JBool True)" and h = h
      and w = "[]" and path = "''./out''" and opts = None and address = "[]"]
  note s = effectful_calls_resend [where c = d and cq = "recording (JBool False)" and h = k
      and w = "[]" and path = "''./out''" and opts = None and address = "''reg/img''"]
  note t = effectful_calls_resend [where c = d and cq = "recording (JStr ''other'')" and h = k
      and w = "[]" and path = "''./out''" and opts = None and address = "''reg/img''"]
  have 1: "Container_export (recording (JBool True)) c ''./out'' None h
          (snd (Container_export (recording (JBool True)) c ''./out'' None h [])) =
          (Inr (JBool True),
           [([\<lparr>operation = ''export'',
               args = Some [(''path'', JStr ''./out''), (''__metadata'', image_metadata)]\<rparr>],
             client c),
            ([\<lparr>operation = ''export'',
               args = Some [(''path'', JStr ''./out''), (''__metadata'', image_metadata)]\<rparr>],
             client c)])"
    by (subst r [THEN conjunct2, THEN conjunct2, THEN conjunct1, THEN mp, OF tc,
          unfolded Let_def, THEN conjunct2])
      (simp add: recording_def spread_def kc)
  have 2: "Container_export (recording (JBool False)) d ''./out'' None k [] = (Inr (JBool True), [])"
    using s td vd by simp
  have 3: "Container_publish (recording (JStr ''other'')) d ''reg/img'' None k [] =
          (Inr (JStr ''reg/img@sha256:0''), [])"
    using t td vd by simp
  show ?thesis
    using 1 2 3 tc td by (simp add: c d)
qed

text \<open>
  The claim as stated fails for a container constructed with \<^verbatim>\<open>_export = true\<close>: two
  invocations of \<^verbatim>\<open>export\<close> send nothing and return the cached value.
\<close>

theorem cached_export_counterexample:
  "(case cached_Container of
      (c, h) \<Rightarrow>
        Container_export (recording (JBool False)) c ''./out'' None h
          (snd (Container_export (recording (JBool False)) c ''./out'' None h [])) =
          (Inr (JBool True), []))"
  by (simp add: Container_constructor_def Container_export_def Let_def split: prod.splits)

section \<open>Lifted objects\<close>

text \<open>
  Claim C3, amended. When the response to \<^verbatim>\<open>envVariables\<close> (\<^verbatim>\<open>exposedPorts\<close>) is an array
  of records, none of them \<^verbatim>\<open>undefined\<close> or \<^verbatim>\<open>null\<close>, the method returns one object per
  record, in order, each with its cached fields set from the record and each referring
  to the very array of the parent: its tree is the parent's tree, without the node
  selecting the array field and without the sub-selection node. The store is unchanged.
\<close>

theorem lifted_objects_keep_parent_tree:
  "(computeQuery (h ! b_queryTree self @
         [\<lparr>operation = ''envVariables'', args = None\<rparr>,
          \<lparr>operation = ''name value'', args = None\<rparr>]) (client self) w = (Inr (JArr rs), w') \<and>
    list_all (\<lambda>r. r \<noteq> JUndefined \<and> r \<noteq> JNull) rs
    \<longrightarrow> (\<exists>xs. Container_envVariables e computeQuery self h w = (Inr xs, h, w') \<and>
           list_all2 (\<lambda>r x. b_queryTree x = b_queryTree self \<and>
                            get_prop r ''name'' = Inr (ev_name x) \<and>
                            get_prop r ''value'' = Inr (ev_value x)) rs xs)) \<and>
   (computeQuery (h ! b_queryTree self @
         [\<lparr>operation = ''exposedPorts'', args = None\<rparr>,
          \<lparr>operation = ''description port protocol'', args = None\<rparr>]) (client self) w =
       (Inr (JArr rs), w') \<and>
    list_all (\<lambda>r. r \<noteq> JUndefined \<and> r \<noteq> JNull) rs
    \<longrightarrow> (\<exists>ps. Container_exposedPorts e computeQuery self h w = (Inr ps, h, w') \<and>
           list_all2 (\<lambda>r x. b_queryTree x = b_queryTree self \<and>
                            get_prop r ''description'' = Inr (p_description x) \<and>
                            get_prop r ''port'' = Inr (p_port x) \<and>
                            get_prop r ''protocol'' = Inr (p_protocol x)) rs ps))"
proof (intro conjI impI)
  assume a: "computeQuery (h ! b_queryTree self @
         [\<lparr>operation = ''envVariables'', args = None\<rparr>,
          \<lparr>operation = ''name value'', args = None\<rparr>]) (client self) w = (Inr (JArr rs), w') \<and>
    list_all (\<lambda>r. r \<noteq> JUndefined \<and> r \<noteq> JNull) rs"
  then have "\<And>r. r \<in> set rs \<Longrightarrow> r \<noteq> JUndefined \<and> r \<noteq> JNull"
    by (simp add: list_all_iff)
  then obtain xs where "map_new (lift_EnvVariable e self) rs h = (Inr xs, h)"
      "list_all2 (\<lambda>r x. b_queryTree x = b_queryTree self \<and>
                            get_prop r ''name'' = Inr (ev_name x) \<and>
                            get_prop r ''value'' = Inr (ev_value x)) rs xs"
    using map_new_all [of rs "lift_EnvVariable e self" h
        "\<lambda>r x. b_queryTree x = b_queryTree self \<and> get_prop r ''name'' = Inr (ev_name x) \<and>
                get_prop r ''value'' = Inr (ev_value x)"] lift_EnvVariable_defined
    by blast
  then show "\<exists>xs. Container_envVariables e computeQuery self h w = (Inr xs, h, w') \<and>
           list_all2 (\<lambda>r x. b_queryTree x = b_queryTree self \<and>
                            get_prop r ''name'' = Inr (ev_name x) \<and>
                            get_prop r ''value'' = Inr (ev_value x)) rs xs"
    using a by (simp add: Container_envVariables_def)
next
  assume a: "computeQuery (h ! b_queryTree self @
         [\<lparr>operation = ''exposedPorts'', args = None\<rparr>,
          \<lparr>operation = ''description port protocol'', args = None\<rparr>]) (client self) w =
       (Inr (JArr rs), w') \<and>
    list_all (\<lambda>r. r \<noteq> JUndefined \<and> r \<noteq> JNull) rs"
  then have "\<And>r. r \<in> set rs \<Longrightarrow> r \<noteq> JUndefined \<and> r \<noteq> JNull"
    by (simp add: list_all_iff)
  then obtain ps where "map_new (lift_Port e self) rs h = (Inr ps, h)"
      "list_all2 (\<lambda>r x. b_queryTree x = b_queryTree self \<and>
                            get_prop r ''description'' = Inr (p_description x) \<and>
                            get_prop r ''port'' = Inr (p_port x) \<and>
                            get_prop r ''protocol'' = Inr (p_protocol x)) rs ps"
    using map_new_all [of rs "lift_Port e self" h
        "\<lambda>r x. b_queryTree x = b_queryTree self \<and>
                get_prop r ''description'' = Inr (p_description x) \<and>
                get_prop r ''port'' = Inr (p_port x) \<and>
                get_prop r ''protocol'' = Inr (p_protocol x)"] lift_Port_defined
    by blast
  then show "\<exists>ps. Container_exposedPorts e computeQuery self h w = (Inr ps, h, w') \<and>
           list_all2 (\<lambda>r x. b_queryTree x = b_queryTree self \<and>
                            get_prop r ''description'' = Inr (p_description x) \<and>
                            get_prop r ''port'' = Inr (p_port x) \<and>
                            get_prop r ''protocol'' = Inr (p_protocol x)) rs ps"
    using a by (simp add: Container_exposedPorts_def)
qed

theorem lifted_objects_keep_parent_tree_witness:
  "(case fresh_Container of
      (c, h) \<Rightarrow>
        (\<exists>xs. Container_envVariables Map.empty
                 (recording (JArr [JObj [(''name'', JStr ''PATH''), (''value'', JStr ''/bin'')]]))
                 c h [] =
               (Inr xs, h,
                [([\<lparr>operation = ''envVariables'', args = None\<rparr>,
                   \<lparr>operation = ''name value'', args = None\<rparr>], client c)]) \<and>
              map (\<lambda>x. (b_queryTree x, ev_name x, ev_value x)) xs =
                [(b_queryTree c, JStr ''PATH'', JStr ''/bin'')]))"
proof -
  obtain c h where c: "fresh_Container = (c, h)"
    by (cases fresh_Container)
  have kc: "h ! b_queryTree c = []"
    using c by (auto dest!: fresh_Container_tree)
  let ?reply = "JArr [JObj [(''name'', JStr ''PATH''), (''value'', JStr ''/bin'')]]"
  let ?sent = "[([\<lparr>operation = ''envVariables'', args = None\<rparr>,
                   \<lparr>operation = ''name value'', args = None\<rparr>], client c)]"
  have p: "recording ?reply (h ! b_queryTree c @
         [\<lparr>operation = ''envVariables'', args = None\<rparr>,
          \<lparr>operation = ''name value'', args = None\<rparr>]) (client c) [] =
        (Inr (JArr [JObj [(''name'', JStr ''PATH''), (''value'', JStr ''/bin'')]]), ?sent) \<and>
        list_all (\<lambda>r. r \<noteq> JUndefined \<and> r \<noteq> JNull)
          [JObj [(''name'', JStr ''PATH''), (''value'', JStr ''/bin'')]]"
    by (simp add: recording_def kc)
  obtain xs where xs: "Container_envVariables Map.empty (recording ?reply) c h [] = (Inr xs, h, ?sent)"
      "list_all2 (\<lambda>r x. b_queryTree x = b_queryTree c \<and>
                            get_prop r ''name'' = Inr (ev_name x) \<and>
                            get_prop r ''value'' = Inr (ev_value x))
         [JObj [(''name'', JStr ''PATH''), (''value'', JStr ''/bin'')]] xs"
    using lifted_objects_keep_parent_tree [where computeQuery = "recording ?reply" and h = h
        and self = c and w = "[]" and w' = ?sent and e = Map.empty
        and rs = "[JObj [(''name'', JStr ''PATH''), (''value'', JStr ''/bin'')]]"] p
    by blast
  from xs(2) have "map (\<lambda>x. (b_queryTree x, ev_name x, ev_value x)) xs =
                [(b_queryTree c, JStr ''PATH'', JStr ''/bin'')]"
    by (auto simp: list_all2_Cons1)
  then show ?thesis
    using xs(1) by (simp add: c)
qed

text \<open>
  The claim as stated fails: the tree of a lifted object is not the parent's tree
  followed by the two nodes of the request.
\<close>

theorem lifted_tree_not_extended_counterexample:
  "(case fresh_Container of
      (a, h0) \<Rightarrow>
        (case Container_from Map.empty a ''alpine'' h0 of
           (c, h) \<Rightarrow>
             (case Container_envVariables Map.empty
                     (recording (JArr [JObj [(''name'', JStr ''PATH''), (''value'', JStr ''/bin'')]]))
                     c h [] of
                (res, h', sent) \<Rightarrow>
                  (case res of
                     Inr [x] \<Rightarrow>
                       ev_name x = JStr ''PATH'' \<and>
                       h' ! b_queryTree x = h' ! b_queryTree c \<and>
                       h' ! b_queryTree x =
                         [\<lparr>operation = ''from'', args = Some [(''address'', JStr ''alpine'')]\<rparr>] \<and>
                       h' ! b_queryTree x \<noteq>
                         h' ! b_queryTree c @
                           [\<lparr>operation = ''envVariables'', args = None\<rparr>,
                            \<lparr>operation = ''name value'', args = None\<rparr>]
                   | _ \<Rightarrow> False))))"
proof -
  obtain a h0 where a: "fresh_Container = (a, h0)"
    by (cases fresh_Container)
  obtain c h where c: "Container_from Map.empty a ''alpine'' h0 = (c, h)"
    by (cases "Container_from Map.empty a ''alpine'' h0")
  have h: "h = [[], [\<lparr>operation = ''from'', args = Some [(''address'', JStr ''alpine'')]\<rparr>]]"
      and r: "b_queryTree c = 1"
    using a c by (auto dest!: fresh_Container_tree Container_from_result)
  show ?thesis
    by (simp add: a c Container_envVariables_def recording_def lift_EnvVariable_def
          EnvVariable_constructor_def BaseClient_constructor_given queryTree_def h r)
qed

section \<open>Construction\<close>

text \<open>
  Claim C4, amended. The constructor examines no operation name and has no
  \<^verbatim>\<open>InvalidOperation\<close> condition. Given an array, whatever its nodes, it throws exactly when
  the session token and the colon appended to it hold a code unit above \<open>0xFF\<close>, and what
  it throws is the \<^verbatim>\<open>InvalidCharacterError\<close> of \<^verbatim>\<open>btoa\<close>; otherwise it returns an object
  referring to that array. Either way the store is as before. \<^verbatim>\<open>Container.from\<close>, whose
  operation name is the literal \<^verbatim>\<open>from\<close>, never throws: it returns an object whose array
  is the receiver's nodes followed by its node, the object and the store that
  \<open>Container_from\<close> gives.
\<close>

theorem construction_examines_no_operation_name:
  "(case Container_constructor_units e
           (Some \<lparr>u_queryTree = Some r, u_host = hst, u_sessionToken = tok\<rparr>)
           v1 v2 v3 v4 v5 v6 v7 v8 v9 v10 v11 v12 v13 v14 v15 h of
      (Inr c, h') \<Rightarrow> latin1 (to_units tok) \<and> b_queryTree c = r \<and> h' = h
    | (Inl err, h') \<Rightarrow> \<not> latin1 (to_units tok) \<and> err = InvalidCharacterError \<and> h' = h) \<and>
   (case Container_from_units e a address h of
      (Inr b, h') \<Rightarrow>
        h' ! b_queryTree b = h ! b_queryTree a @
          [\<lparr>operation = ''from'', args = Some [(''address'', JStr address)]\<rparr>] \<and>
        take (length h) h' = h
    | (Inl err, h') \<Rightarrow> False) \<and>
   Container_from_units e a address h =
     (Inr (fst (Container_from e a address h)), snd (Container_from e a address h))"
proof -
  have 1: "Container_from_units e a address h =
     (Inr (fst (Container_from e a address h)), snd (Container_from e a address h))"
    using BaseClient_constructor_units_agrees [where tok = "Some (sessionToken a)"]
    by (simp add: Container_from_units_def Container_from_def new_Container_def
          Container_constructor_units_def Container_constructor_def alloc_def
          BaseClient_constructor_given)
  have 2: "(case Container_constructor_units e
           (Some \<lparr>u_queryTree = Some r, u_host = hst, u_sessionToken = tok\<rparr>)
           v1 v2 v3 v4 v5 v6 v7 v8 v9 v10 v11 v12 v13 v14 v15 h of
      (Inr c, h') \<Rightarrow> latin1 (to_units tok) \<and> b_queryTree c = r \<and> h' = h
    | (Inl err, h') \<Rightarrow> \<not> latin1 (to_units tok) \<and> err = InvalidCharacterError \<and> h' = h) \<and>
   (case Container_from_units e a address h of
      (Inr b, h') \<Rightarrow>
        h' ! b_queryTree b = h ! b_queryTree a @
          [\<lparr>operation = ''from'', args = Some [(''address'', JStr address)]\<rparr>] \<and>
        take (length h) h' = h
    | (Inl err, h') \<Rightarrow> False)"
    by (simp add: Container_constructor_units_def Container_from_units_def
        BaseClient_constructor_units_given alloc_def to_units_def latin1_of_char)
  show ?thesis
    by (rule conjI [OF conjunct1 [OF 2] conjI [OF conjunct2 [OF 2] 1]])
qed

text \<open>
  The claim as stated fails: constructing a container over an array whose node has the
  empty operation name returns the container.
\<close>

theorem empty_operation_accepted_counterexample:
  "(case Container_constructor_units Map.empty
           (Some \<lparr>u_queryTree = Some 0, u_host = None, u_sessionToken = None\<rparr>)
           JUndefined JUndefined JUndefined JUndefined JUndefined JUndefined JUndefined
           JUndefined JUndefined JUndefined JUndefined JUndefined JUndefined JUndefined
           JUndefined [[\<lparr>operation = [], args = None\<rparr>]] of
      (Inr c, h) \<Rightarrow> h ! b_queryTree c = [\<lparr>operation = [], args = None\<rparr>]
    | (Inl err, h) \<Rightarrow> False)"
  by (simp add: Container_constructor_units_def BaseClient_constructor_units_given to_units_def
        latin1_def)

section \<open>The scheme of the endpoint\<close>

text \<open>
  What the constructor computes: \<^verbatim>\<open>http\<close> when the host begins with \<^verbatim>\<open>localhost\<close> or its
  part before the first colon contains four groups of one to three digits separated by
  dots, since \<^verbatim>\<open>startsWith\<close> looks at the whole host and the regular expression has no
  anchors.
\<close>

lemma endpoint_scheme:
  "url (client (fst (BaseClient_constructor e parent h))) =
     (let hst = clientHost (fst (BaseClient_constructor e parent h))
      in (if startsWith hst ''localhost'' \<or>
             (\<exists>pre a b c d post.
                 digit_group a \<and> digit_group b \<and> digit_group c \<and> digit_group d \<and>
                 split_colon_0 hst = pre @ a @ ''.'' @ b @ ''.'' @ c @ ''.'' @ d @ post)
          then ''http'' else ''https'') @ ''://'' @ hst @ ''/query'' @
         (case e ''FLUENTCI_SESSION_ID'' of None \<Rightarrow> [] | Some v \<Rightarrow> ''?id='' @ v))"
  unfolding BaseClient_constructor_url Let_def endpoint_url_def scheme_of_def
    match_ipv4_contains [symmetric]
  by (simp split: option.splits)

text \<open>
  Claim C5 does not hold of the code. For the hostnames \<^verbatim>\<open>10.0.0.1.nip.io\<close> and
  \<^verbatim>\<open>localhost.evil.com\<close>, which are neither \<^verbatim>\<open>localhost\<close> nor a literal IPv4 address, the
  constructor builds an \<^verbatim>\<open>http\<close> URL.
\<close>

theorem endpoint_scheme_failing_inputs:
  "url (client (fst (BaseClient_constructor Map.empty
       (Some \<lparr>cfg_queryTree = None, cfg_host = Some ''10.0.0.1.nip.io'',
              cfg_sessionToken = None\<rparr>) []))) = ''http://10.0.0.1.nip.io/query'' \<and>
   split_colon_0 ''10.0.0.1.nip.io'' \<noteq> ''localhost'' \<and>
   \<not> dotted_quad (split_colon_0 ''10.0.0.1.nip.io'') \<and>
   url (client (fst (BaseClient_constructor Map.empty
       (Some \<lparr>cfg_queryTree = None, cfg_host = Some ''localhost.evil.com'',
              cfg_sessionToken = None\<rparr>) []))) = ''http://localhost.evil.com/query'' \<and>
   split_colon_0 ''localhost.evil.com'' \<noteq> ''localhost'' \<and>
   \<not> dotted_quad (split_colon_0 ''localhost.evil.com'')"
  by (simp add: BaseClient_constructor_client endpoint_url_def str_or_def scheme_of_def
        startsWith_def split_colon_0_def ipv4_here_def digits_dot_def digits_1_3_def
        literal_dot_def is_digit_def dotted_quad_def)

section \<open>The headers and the session parameter\<close>

text \<open>
  Claim C6, amended. For a given session token the Authorization header is \<^verbatim>\<open>Basic\<close>
  followed by the Base64 of the token and a colon. With \<^verbatim>\<open>FLUENTCI_SESSION_ID\<close> set, its
  value is both the value of the header \<^verbatim>\<open>X-FluentCI-Session-ID\<close> and the \<^verbatim>\<open>id\<close> parameter
  of the URL. With the variable unset the URL has no parameter and the header is still
  there, with the empty string as its value.
\<close>

theorem transport_configuration:
  "(let c = client (fst (BaseClient_constructor (e(''FLUENTCI_SESSION_ID'' \<mapsto> sid))
                (Some \<lparr>cfg_queryTree = q, cfg_host = hst, cfg_sessionToken = Some tok\<rparr>) h))
    in map_of (headers c) ''Authorization'' = Some (''Basic '' @ btoa (tok @ '':'')) \<and>
       map_of (headers c) ''X-FluentCI-Session-ID'' = Some sid \<and>
       url c = scheme_of (str_or hst ''127.0.0.1:8080'') @ ''://'' @
               str_or hst ''127.0.0.1:8080'' @ ''/query?id='' @ sid) \<and>
   (let c = client (fst (BaseClient_constructor (e(''FLUENTCI_SESSION_ID'' := None))
                (Some \<lparr>cfg_queryTree = q, cfg_host = hst, cfg_sessionToken = Some tok\<rparr>) h))
    in map_of (headers c) ''Authorization'' = Some (''Basic '' @ btoa (tok @ '':'')) \<and>
       map_of (headers c) ''X-FluentCI-Session-ID'' = Some [] \<and>
       url c = scheme_of (str_or hst ''127.0.0.1:8080'') @ ''://'' @
               str_or hst ''127.0.0.1:8080'' @ ''/query'')"
  by (simp add: BaseClient_constructor_client Let_def endpoint_url_def request_headers_def
        to_string_def str_or_Some_empty str_or_def)

text \<open>
  The claim as stated fails: with the variable unset the correlation header is among
  the headers all the same.
\<close>

theorem correlation_header_without_session_counterexample:
  "map_of (headers (client (fst (BaseClient_constructor Map.empty
       (Some \<lparr>cfg_queryTree = None, cfg_host = None, cfg_sessionToken = Some ''tok''\<rparr>) []))))
     ''X-FluentCI-Session-ID'' = Some [] \<and>
   (Map.empty :: env) ''FLUENTCI_SESSION_ID'' = None"
  by (simp add: BaseClient_constructor_client request_headers_def str_or_def)

end
